theory Spec2Isabelle
  imports Main
begin

section \<open>The Go standard library, as far as the logging package uses it\<close>

text \<open>
  A Go string is a sequence of bytes; it is modelled as a \<open>string\<close> (a list of 8-bit
  characters). The functions of \<open>strings\<close>, \<open>strconv\<close> and \<open>regexp\<close> that the package
  calls are written out here for the arguments the package passes to them (separators of
  one byte, base 10, 64-bit \<open>int\<close>). \<open>time.Parse\<close> and \<open>strconv.ParseFloat\<close>, whose results
  are values of \<open>time.Time\<close> and \<open>float64\<close>, are parameters of the model: see \<open>golib\<close>.
\<close>

abbreviation dquote :: char where "dquote \<equiv> CHR 0x22"

definition isDigit :: "char \<Rightarrow> bool" where
  "isDigit c = (48 \<le> (of_char c :: nat) \<and> (of_char c :: nat) \<le> 57)"

definition isLower :: "char \<Rightarrow> bool" where
  "isLower c = (97 \<le> (of_char c :: nat) \<and> (of_char c :: nat) \<le> 122)"

definition isUpper :: "char \<Rightarrow> bool" where
  "isUpper c = (65 \<le> (of_char c :: nat) \<and> (of_char c :: nat) \<le> 90)"

subsection \<open>strings\<close>

text \<open>
  \<open>unicode.IsSpace\<close> at the head of a string: the number of bytes of the white space
  character that starts there, 0 when none does. The white space characters are
  U+0009..U+000D, U+0020, U+0085, U+00A0, U+1680, U+2000..U+200A, U+2028, U+2029, U+202F,
  U+205F and U+3000, here in their UTF-8 encodings. No encoding of one of them starts
  inside the encoding of another character, so reading byte by byte finds the same
  characters as decoding does.
\<close>

definition spaceWidth :: "string \<Rightarrow> nat" where
  "spaceWidth s =
     (if take 1 s \<in> {[CHR 0x09], [CHR 0x0A], [CHR 0x0B], [CHR 0x0C], [CHR 0x0D], [CHR 0x20]}
      then 1
      else if take 2 s \<in> {[CHR 0xC2, CHR 0x85], [CHR 0xC2, CHR 0xA0]} then 2
      else if take 3 s \<in>
          {[CHR 0xE1, CHR 0x9A, CHR 0x80],
           [CHR 0xE2, CHR 0x80, CHR 0x80], [CHR 0xE2, CHR 0x80, CHR 0x81],
           [CHR 0xE2, CHR 0x80, CHR 0x82], [CHR 0xE2, CHR 0x80, CHR 0x83],
           [CHR 0xE2, CHR 0x80, CHR 0x84], [CHR 0xE2, CHR 0x80, CHR 0x85],
           [CHR 0xE2, CHR 0x80, CHR 0x86], [CHR 0xE2, CHR 0x80, CHR 0x87],
           [CHR 0xE2, CHR 0x80, CHR 0x88], [CHR 0xE2, CHR 0x80, CHR 0x89],
           [CHR 0xE2, CHR 0x80, CHR 0x8A], [CHR 0xE2, CHR 0x80, CHR 0xA8],
           [CHR 0xE2, CHR 0x80, CHR 0xA9], [CHR 0xE2, CHR 0x80, CHR 0xAF],
           [CHR 0xE2, CHR 0x81, CHR 0x9F], [CHR 0xE3, CHR 0x80, CHR 0x80]} then 3
      else 0)"

text \<open>\<open>strings.Fields\<close>: the maximal runs of bytes between white space characters.\<close>

function fieldsFrom :: "string \<Rightarrow> string \<Rightarrow> string list" where
  "fieldsFrom cur [] = (if cur = [] then [] else [cur])"
| "fieldsFrom cur (c # cs) =
     (if spaceWidth (c # cs) = 0 then fieldsFrom (cur @ [c]) cs
      else (if cur = [] then [] else [cur]) @ fieldsFrom [] (drop (spaceWidth (c # cs) - 1) cs))"
  by pat_completeness auto
termination
  by (relation "measure (\<lambda>(cur, s). length s)") auto

definition Fields :: "string \<Rightarrow> string list" where
  "Fields s = fieldsFrom [] s"

text \<open>\<open>strings.Split(s, sep)\<close> for a separator of one byte.\<close>

fun Split :: "string \<Rightarrow> char \<Rightarrow> string list" where
  "Split [] sep = [[]]"
| "Split (c # cs) sep =
     (if c = sep then [] # Split cs sep
      else (case Split cs sep of p # ps \<Rightarrow> (c # p) # ps | [] \<Rightarrow> [[c]]))"

text \<open>\<open>strings.SplitN(s, sep, 2)\<close> for a separator of one byte: cut at the first one.\<close>

definition SplitN2 :: "string \<Rightarrow> char \<Rightarrow> string list" where
  "SplitN2 s sep =
     (if sep \<in> set s then [takeWhile (\<lambda>c. c \<noteq> sep) s, tl (dropWhile (\<lambda>c. c \<noteq> sep) s)]
      else [s])"

definition Contains :: "string \<Rightarrow> char \<Rightarrow> bool" where
  "Contains s c = (c \<in> set s)"

definition HasPrefix :: "string \<Rightarrow> char \<Rightarrow> bool" where
  "HasPrefix s c = (case s of [] \<Rightarrow> False | x # _ \<Rightarrow> x = c)"

definition HasSuffix :: "string \<Rightarrow> char \<Rightarrow> bool" where
  "HasSuffix s c = (case rev s of [] \<Rightarrow> False | x # _ \<Rightarrow> x = c)"

fun Join :: "string list \<Rightarrow> string \<Rightarrow> string" where
  "Join [] sep = []"
| "Join [x] sep = x"
| "Join (x # y # ys) sep = x @ sep @ Join (y # ys) sep"

subsection \<open>strconv\<close>

definition digitsValue :: "string \<Rightarrow> nat" where
  "digitsValue ds = foldl (\<lambda>n c. 10 * n + ((of_char c :: nat) - 48)) 0 ds"

text \<open>The syntax both \<open>Atoi\<close> and \<open>ParseInt(s, 10, 64)\<close> accept: an optional sign and
  at least one decimal digit.\<close>

definition decimalInt :: "string \<Rightarrow> int option" where
  "decimalInt s =
     (case s of
        [] \<Rightarrow> None
      | c # cs \<Rightarrow>
          (let neg = (c = CHR ''-''); ds = (if c = CHR ''+'' \<or> c = CHR ''-'' then cs else s)
           in if ds = [] \<or> \<not> list_all isDigit ds then None
              else Some (if neg then - int (digitsValue ds) else int (digitsValue ds))))"

definition maxInt64 :: int where "maxInt64 = 9223372036854775807"
definition minInt64 :: int where "minInt64 = - 9223372036854775808"

text \<open>
  \<open>strconv.ParseInt(s, 10, 64)\<close>: the value and whether the error is nil. A syntax error
  gives 0, a value out of range gives the nearest bound, both with an error.
\<close>

definition ParseInt :: "string \<Rightarrow> int \<times> bool" where
  "ParseInt s =
     (case decimalInt s of
        None \<Rightarrow> (0, False)
      | Some v \<Rightarrow>
          if v > maxInt64 then (maxInt64, False)
          else if v < minInt64 then (minInt64, False)
          else (v, True))"

text \<open>\<open>strconv.Atoi\<close> on a platform whose \<open>int\<close> has 64 bits.\<close>

definition Atoi :: "string \<Rightarrow> int \<times> bool" where
  "Atoi s = ParseInt s"

subsection \<open>The parameters: time.Parse and strconv.ParseFloat\<close>

text \<open>
  \<open>time_Parse layout value\<close> and \<open>ParseFloat s\<close> return the value and whether the error is
  nil, as the Go functions do; \<open>zeroTime\<close> and \<open>zeroFloat\<close> are the zero values of
  \<open>time.Time\<close> and \<open>float64\<close>. Every definition below takes them as \<open>lib\<close>, and the theorems
  hold for every such library.
\<close>

record ('t, 'f) golib =
  time_Parse :: "string \<Rightarrow> string \<Rightarrow> 't \<times> bool"
  zeroTime :: 't
  ParseFloat :: "string \<Rightarrow> 'f \<times> bool"
  zeroFloat :: 'f

subsection \<open>regexp: the five patterns of the package\<close>

text \<open>
  Each pattern is written as the search it denotes under Go's leftmost-first matching.
  \<open>FindStringSubmatch\<close> returns the whole match followed by the groups, and the empty
  list (Go's nil slice) when nothing matches.

  \<open>validKeyRegexp = (?i)^[a-z]+$\<close>. Under \<open>(?i)\<close> the class \<open>[a-z]\<close> holds the ASCII
  letters of both cases and the two other characters that fold to one of them:
  U+017F (bytes C5 BF) and U+212A (bytes E2 84 AA).
\<close>

function validKeyRunes :: "string \<Rightarrow> bool" where
  "validKeyRunes [] = True"
| "validKeyRunes (c # cs) =
     (if isLower c \<or> isUpper c then validKeyRunes cs
      else if take 2 (c # cs) = [CHR 0xC5, CHR 0xBF] then validKeyRunes (drop 1 cs)
      else if take 3 (c # cs) = [CHR 0xE2, CHR 0x84, CHR 0xAA] then validKeyRunes (drop 2 cs)
      else False)"
  by pat_completeness auto
termination
  by (relation "measure length") auto

definition validKeyRegexp_MatchString :: "string \<Rightarrow> bool" where
  "validKeyRegexp_MatchString s = (s \<noteq> [] \<and> validKeyRunes s)"

text \<open>\<open>callsRegexp = ^([0-9.]+)\/([0-9]+)$\<close>\<close>

definition callsRegexp_FindStringSubmatch :: "string \<Rightarrow> string list" where
  "callsRegexp_FindStringSubmatch s =
     (let a = takeWhile (\<lambda>c. isDigit c \<or> c = CHR ''.'') s;
          r = dropWhile (\<lambda>c. isDigit c \<or> c = CHR ''.'') s
      in if a \<noteq> [] \<and> HasPrefix r (CHR ''/'') \<and> tl r \<noteq> [] \<and> list_all isDigit (tl r)
         then [s, a, tl r] else [])"

text \<open>
  \<open>TagRegexp = (.*?)\[(\d*)\]\<close>, not anchored: the first \<open>[\<close> that is followed by digits
  and \<open>]\<close> ends group 1, which starts at the beginning of the string, or after the last
  line feed before that bracket (\<open>.\<close> does not match a line feed).
\<close>

definition digitsThenBracket :: "string \<Rightarrow> string option" where
  "digitsThenBracket s =
     (if HasPrefix (dropWhile isDigit s) (CHR '']'') then Some (takeWhile isDigit s) else None)"

fun tagFind :: "string \<Rightarrow> string \<Rightarrow> string list" where
  "tagFind acc [] = []"
| "tagFind acc (c # cs) =
     (if c = CHR ''[''
      then (case digitsThenBracket cs of
              Some d \<Rightarrow> [acc @ ''['' @ d @ '']'', acc, d]
            | None \<Rightarrow> tagFind (acc @ [c]) cs)
      else if c = CHR 0x0A then tagFind [] cs
      else tagFind (acc @ [c]) cs)"

definition TagRegexp_FindStringSubmatch :: "string \<Rightarrow> string list" where
  "TagRegexp_FindStringSubmatch s = tagFind [] s"

text \<open>\<open>UUIDRegexp = ([a-z0-9\-]{36})\<close>: the first 36 bytes in a row from the class.\<close>

definition uuidChar :: "char \<Rightarrow> bool" where
  "uuidChar c = (isLower c \<or> isDigit c \<or> c = CHR ''-'')"

fun UUIDRegexp_FindStringSubmatch :: "string \<Rightarrow> string list" where
  "UUIDRegexp_FindStringSubmatch [] = []"
| "UUIDRegexp_FindStringSubmatch (c # cs) =
     (if 36 \<le> length (c # cs) \<and> list_all uuidChar (take 36 (c # cs))
      then [take 36 (c # cs), take 36 (c # cs)]
      else UUIDRegexp_FindStringSubmatch cs)"

text \<open>
  \<open>quotesRegexp = (ua|uri|ref)="(.*?)"\<close>. \<open>quoteAt s\<close> is the match that starts at the head
  of \<open>s\<close>, with its length: one of the three keys, \<open>="\<close>, and the bytes up to the next
  double quote, which must come before any line feed.
\<close>

definition quoteAt :: "string \<Rightarrow> (string list \<times> nat) option" where
  "quoteAt s =
     (let key = (if take 2 s = ''ua'' then ''ua''
                 else if take 3 s = ''uri'' then ''uri''
                 else if take 3 s = ''ref'' then ''ref'' else [])
      in if key = [] \<or> take 2 (drop (length key) s) \<noteq> [CHR ''='', dquote] then None
         else (let body = drop (length key + 2) s;
                   v = takeWhile (\<lambda>c. c \<noteq> dquote \<and> c \<noteq> CHR 0x0A) body
               in if HasPrefix (drop (length v) body) dquote
                  then Some ([key @ [CHR ''='', dquote] @ v @ [dquote], key, v],
                             length key + length v + 3)
                  else None))"

text \<open>\<open>FindAllStringSubmatch(s, -1)\<close>: the matches from left to right, none overlapping.\<close>

function quotesRegexp_FindAllStringSubmatch :: "string \<Rightarrow> string list list" where
  "quotesRegexp_FindAllStringSubmatch [] = []"
| "quotesRegexp_FindAllStringSubmatch (c # cs) =
     (case quoteAt (c # cs) of
        Some (m, n) \<Rightarrow> m # quotesRegexp_FindAllStringSubmatch (drop (n - 1) cs)
      | None \<Rightarrow> quotesRegexp_FindAllStringSubmatch cs)"
  by pat_completeness auto
termination
  by (relation "measure length") auto

section \<open>The logging package\<close>

text \<open>
  A run of a function that can panic returns \<open>None\<close> for the panic. \<open>Parse\<close> returns
  the error (\<open>None\<close> for nil) and the record as the call leaves it.
\<close>

datatype error =
  ParseError string string
| Errorf string string

datatype 'f tagValue = IntValue int | FloatValue 'f | StringValue string

type_synonym 'f tagMap = "string \<rightharpoonup> 'f tagValue"

record ('t, 'f) SyslogLine =
  Raw :: string
  Time :: 't
  Host :: string
  Tag :: string
  Severity :: string
  Pid :: int
  fields_list :: "string list"
  parsed :: bool
  tags :: "'f tagMap"
  tagsParsed :: bool

text \<open>The zero value \<open>SyslogLine{}\<close>; reading the nil map is reading the empty map.\<close>

definition newSyslogLine :: "('t, 'f) golib \<Rightarrow> ('t, 'f) SyslogLine" where
  "newSyslogLine lib =
     \<lparr>Raw = [], Time = zeroTime lib, Host = [], Tag = [], Severity = [], Pid = 0,
      fields_list = [], parsed = False, tags = Map.empty, tagsParsed = False\<rparr>"

text \<open>\<open>raw[1 : len(raw)-1]\<close> panics on a string of one byte.\<close>

definition removeQuotes :: "string \<Rightarrow> string option" where
  "removeQuotes raw =
     (if HasPrefix raw dquote \<and> HasSuffix raw dquote
      then (if length raw < 2 then None else Some (take (length raw - 2) (drop 1 raw)))
      else Some raw)"

definition parseTagValue :: "('t, 'f) golib \<Rightarrow> string \<Rightarrow> 'f tagValue option" where
  "parseTagValue lib raw =
     (if snd (ParseInt raw) then Some (IntValue (fst (ParseInt raw)))
      else if snd (ParseFloat lib raw) then Some (FloatValue (fst (ParseFloat lib raw)))
      else map_option StringValue (removeQuotes raw))"

text \<open>
  One round of the loop of \<open>parseTags\<close>, on the loop's variables
  \<open>(inQuotes, currentKey, valueParts, t)\<close>.
\<close>

type_synonym 'f tagScan = "bool \<times> string \<times> string list \<times> 'f tagMap"

definition parseTagsField :: "('t, 'f) golib \<Rightarrow> string \<Rightarrow> 'f tagScan \<Rightarrow> 'f tagScan option" where
  "parseTagsField lib field st =
     (case st of (inQuotes, currentKey, valueParts, t) \<Rightarrow>
        if inQuotes then
          (if Contains field dquote
           then (case removeQuotes (Join (valueParts @ [field]) '' '') of
                   None \<Rightarrow> None
                 | Some v \<Rightarrow>
                     Some (False, currentKey, valueParts @ [field], t(currentKey \<mapsto> StringValue v)))
           else Some (True, currentKey, valueParts @ [field], t))
        else
          (let kv = SplitN2 field (CHR ''='')
           in if length kv = 2 \<and> validKeyRegexp_MatchString (kv ! 0) then
                (let key = kv ! 0; value = kv ! 1
                 in if Contains value dquote \<and> \<not> HasSuffix value dquote
                    then Some (True, key, [value], t)
                    else if value \<noteq> ''-'' then
                      (let m = callsRegexp_FindStringSubmatch value
                       in if length m = 3 then
                            (if snd (ParseFloat lib (m ! 1)) then
                               (if snd (ParseInt (m ! 2))
                                then Some (False, key, valueParts,
                                       t(key @ ''_time'' \<mapsto> FloatValue (fst (ParseFloat lib (m ! 1))),
                                         key @ ''_calls'' \<mapsto> IntValue (fst (ParseInt (m ! 2)))))
                                else Some (False, key, valueParts, t))
                             else Some (False, key, valueParts, t))
                          else (case parseTagValue lib value of
                                  None \<Rightarrow> None
                                | Some v \<Rightarrow> Some (False, [], valueParts, t(key \<mapsto> v))))
                    else Some (False, key, valueParts, t))
              else Some (False, currentKey, valueParts, t)))"

fun parseTagsLoop :: "('t, 'f) golib \<Rightarrow> string list \<Rightarrow> 'f tagScan \<Rightarrow> 'f tagScan option" where
  "parseTagsLoop lib [] st = Some st"
| "parseTagsLoop lib (field # rest) st =
     (case parseTagsField lib field st of
        None \<Rightarrow> None
      | Some st' \<Rightarrow> parseTagsLoop lib rest st')"

definition parseTags :: "('t, 'f) golib \<Rightarrow> string \<Rightarrow> 'f tagMap option" where
  "parseTags lib raw =
     map_option (\<lambda>st. snd (snd (snd st))) (parseTagsLoop lib (Fields raw) (False, [], [], Map.empty))"

text \<open>\<open>Tags\<close> returns the record as the call leaves it, and the map.\<close>

definition Tags ::
  "('t, 'f) golib \<Rightarrow> ('t, 'f) SyslogLine \<Rightarrow> (('t, 'f) SyslogLine \<times> 'f tagMap) option" where
  "Tags lib line =
     (if \<not> tagsParsed line
      then (case parseTags lib (Raw line) of
              None \<Rightarrow> None
            | Some m \<Rightarrow> Some (line\<lparr>tags := m\<rparr>, m))
      else Some (line, tags line))"

definition timeLayout :: string where
  "timeLayout = ''2006-01-02T15:04:05.000000-07:00''"

definition timeLayoutWithoutMicro :: string where
  "timeLayoutWithoutMicro = ''2006-01-02T15:04:05-07:00''"

text \<open>\<open>tag[len(tag)-1]\<close> panics on the empty string.\<close>

definition splitTagAndPid :: "string \<Rightarrow> (string \<times> int) option" where
  "splitTagAndPid raw =
     (let chunks = TagRegexp_FindStringSubmatch raw
      in if length chunks > 2 then Some (chunks ! 1, fst (Atoi (chunks ! 2)))
         else if raw = [] then None
         else if last raw = CHR '':'' then Some (butlast raw, 0)
         else Some (raw, 0))"

definition splitTagAndSeverity :: "string \<Rightarrow> string \<times> string" where
  "splitTagAndSeverity raw =
     (let parts = Split raw (CHR ''.'')
      in if length parts = 2 then (parts ! 0, parts ! 1) else (raw, []))"

definition parseTag :: "string \<Rightarrow> (string \<times> string \<times> int) option" where
  "parseTag raw =
     (case splitTagAndPid raw of
        None \<Rightarrow> None
      | Some (tagAndSeverity, pid) \<Rightarrow>
          Some (fst (splitTagAndSeverity tagAndSeverity),
                snd (splitTagAndSeverity tagAndSeverity), pid))"

text \<open>The last three statements of the \<open>if\<close> block of \<open>Parse\<close>, and \<open>line.parsed = true\<close>.\<close>

definition parseHostAndTag ::
  "('t, 'f) SyslogLine \<Rightarrow> (error option \<times> ('t, 'f) SyslogLine) option" where
  "parseHostAndTag line =
     (case parseTag (fields_list line ! 2) of
        None \<Rightarrow> None
      | Some (tag, severity, pid) \<Rightarrow>
          Some (None, line\<lparr>Host := fields_list line ! 1, Tag := tag, Severity := severity,
                           Pid := pid, parsed := True\<rparr>))"

definition SyslogLine_Parse ::
  "('t, 'f) golib \<Rightarrow> ('t, 'f) SyslogLine \<Rightarrow> string \<Rightarrow>
   (error option \<times> ('t, 'f) SyslogLine) option" where
  "SyslogLine_Parse lib line raw =
     (if parsed line then Some (None, line)
      else
        (let line1 = line\<lparr>Raw := raw, fields_list := Fields raw\<rparr>
         in if length (fields_list line1) \<ge> 3 then
              (let r1 = time_Parse lib timeLayout (fields_list line1 ! 0);
                   line2 = line1\<lparr>Time := fst r1\<rparr>
               in if \<not> snd r1 then
                    (let r2 = time_Parse lib timeLayoutWithoutMicro (fields_list line2 ! 0);
                         line3 = line2\<lparr>Time := fst r2\<rparr>
                     in if \<not> snd r2
                        then Some (Some (ParseError timeLayoutWithoutMicro (fields_list line3 ! 0)), line3)
                        else parseHostAndTag line3)
                  else parseHostAndTag line2)
            else Some (None, line1\<lparr>parsed := True\<rparr>)))"

record ('t, 'f) UnicornLine =
  UUID :: string
  Unicorn_SyslogLine :: "('t, 'f) SyslogLine"

definition UnicornLine_Parse ::
  "('t, 'f) golib \<Rightarrow> ('t, 'f) UnicornLine \<Rightarrow> string \<Rightarrow>
   (error option \<times> ('t, 'f) UnicornLine) option" where
  "UnicornLine_Parse lib line raw =
     (case SyslogLine_Parse lib (Unicorn_SyslogLine line) raw of
        None \<Rightarrow> None
      | Some (e, sl) \<Rightarrow>
          (let line1 = line\<lparr>Unicorn_SyslogLine := sl\<rparr>
           in if e \<noteq> None then Some (e, line1)
              else if Tag sl \<noteq> ''unicorn''
              then Some (Some (Errorf ''tag %q not supported'' (Tag sl)), line1)
              else if length (fields_list sl) \<ge> 4 then
                (let parts = UUIDRegexp_FindStringSubmatch raw
                 in if length parts > 1 then Some (None, line1\<lparr>UUID := parts ! 1\<rparr>)
                    else Some (None, line1))
              else Some (None, line1)))"

text \<open>
  \<open>NginxLine\<close> holds a pointer to its \<open>SyslogLine\<close>, nil in the zero value: an option.
  The record that the pointer leads to is held here by value; no other holder of the
  pointer is modelled.
\<close>

record ('t, 'f) NginxLine =
  Nginx_SyslogLine :: "('t, 'f) SyslogLine option"
  Nginx_Method :: string
  Nginx_Status :: string
  Nginx_Length :: int
  TotalTime :: 'f
  UnicornTime :: 'f
  HttpHost :: string
  UserAgentName :: string
  Nginx_Uri :: string
  Referer :: string

text \<open>The body of the loop over \<open>line.fields\<close>.\<close>

definition nginxField ::
  "('t, 'f) golib \<Rightarrow> ('t, 'f) NginxLine \<Rightarrow> string \<Rightarrow> ('t, 'f) NginxLine" where
  "nginxField lib line field =
     (let parts = SplitN2 field (CHR ''='')
      in if length parts = 2 then
           (let key = parts ! 0; value = parts ! 1
            in if key = ''method'' then line\<lparr>Nginx_Method := value\<rparr>
               else if key = ''status'' then line\<lparr>Nginx_Status := value\<rparr>
               else if key = ''host'' then line\<lparr>HttpHost := value\<rparr>
               else if key = ''length'' then line\<lparr>Nginx_Length := fst (Atoi value)\<rparr>
               else if key = ''total'' then line\<lparr>TotalTime := fst (ParseFloat lib value)\<rparr>
               else if key = ''unicorn_time''
               then line\<lparr>UnicornTime := fst (ParseFloat lib value)\<rparr>
               else line)
         else line)"

text \<open>The body of the loop over the matches of \<open>quotesRegexp\<close>.\<close>

definition nginxQuote :: "('t, 'f) NginxLine \<Rightarrow> string list \<Rightarrow> ('t, 'f) NginxLine" where
  "nginxQuote line quote =
     (if quote ! 1 = ''ua'' then line\<lparr>UserAgentName := quote ! 2\<rparr>
      else if quote ! 1 = ''uri'' then line\<lparr>Nginx_Uri := quote ! 2\<rparr>
      else if quote ! 1 = ''ref'' then line\<lparr>Referer := quote ! 2\<rparr>
      else line)"

definition NginxLine_Parse ::
  "('t, 'f) golib \<Rightarrow> ('t, 'f) NginxLine \<Rightarrow> string \<Rightarrow>
   (error option \<times> ('t, 'f) NginxLine) option" where
  "NginxLine_Parse lib line raw =
     (let sl0 = (case Nginx_SyslogLine line of None \<Rightarrow> newSyslogLine lib | Some sl \<Rightarrow> sl)
      in case SyslogLine_Parse lib sl0 raw of
           None \<Rightarrow> None
         | Some (e, sl) \<Rightarrow>
             (let line1 = line\<lparr>Nginx_SyslogLine := Some sl\<rparr>
              in if e \<noteq> None then Some (e, line1)
                 else if Tag sl \<noteq> ''ssl_endpoint'' \<and> Tag sl \<noteq> ''nginx''
                 then Some (Some (Errorf ''tag %q not supported'' (Tag sl)), line1)
                 else Some (None,
                        foldl nginxQuote (foldl (nginxField lib) line1 (fields_list sl))
                          (quotesRegexp_FindAllStringSubmatch raw))))"

record ('t, 'f) HAProxyLine =
  HAProxy_SyslogLine :: "('t, 'f) SyslogLine"
  Frontend :: string
  Backend :: string
  BackendHost :: string
  BackendImageId :: string
  BackendContainerId :: string
  HAProxy_Status :: string
  HAProxy_Length :: int
  ClientRequestTime :: int
  ConnectionQueueTime :: int
  TcpConnectTime :: int
  ServerResponseTime :: int
  SessionDurationTime :: int
  ActiveConnections :: int
  FrontendConnections :: int
  BackendConnectons :: int
  ServerConnections :: int
  Retries :: int
  ServerQueue :: int
  BackendQueue :: int
  HAProxy_Method :: string
  HAProxy_Uri :: string

text \<open>The statements of the block under \<open>len(line.fields) > 16\<close>, in groups.\<close>

definition haproxyBackend :: "('t, 'f) HAProxyLine \<Rightarrow> string \<Rightarrow> ('t, 'f) HAProxyLine" where
  "haproxyBackend line backend =
     (let parts = SplitN2 backend (CHR ''/'')
      in if length parts = 2 then
           (let line1 = line\<lparr>Backend := parts ! 0\<rparr>;
                parts2 = Split (parts ! 1) (CHR '':'')
            in if length parts2 = 3
               then line1\<lparr>BackendHost := parts2 ! 0, BackendImageId := parts2 ! 1,
                          BackendContainerId := parts2 ! 2\<rparr>
               else line1)
         else line)"

definition haproxyTimes :: "('t, 'f) HAProxyLine \<Rightarrow> string \<Rightarrow> ('t, 'f) HAProxyLine" where
  "haproxyTimes line timings =
     (let parts = Split timings (CHR ''/'')
      in if length parts = 5
         then line\<lparr>ClientRequestTime := fst (Atoi (parts ! 0)),
                   ConnectionQueueTime := fst (Atoi (parts ! 1)),
                   TcpConnectTime := fst (Atoi (parts ! 2)),
                   ServerResponseTime := fst (Atoi (parts ! 3)),
                   SessionDurationTime := fst (Atoi (parts ! 4))\<rparr>
         else line)"

definition haproxyConnections :: "('t, 'f) HAProxyLine \<Rightarrow> string \<Rightarrow> ('t, 'f) HAProxyLine" where
  "haproxyConnections line connections =
     (let parts = Split connections (CHR ''/'')
      in if length parts = 5
         then line\<lparr>ActiveConnections := fst (Atoi (parts ! 0)),
                   FrontendConnections := fst (Atoi (parts ! 1)),
                   BackendConnectons := fst (Atoi (parts ! 2)),
                   ServerConnections := fst (Atoi (parts ! 3)),
                   Retries := fst (Atoi (parts ! 4))\<rparr>
         else line)"

definition haproxyQueues :: "('t, 'f) HAProxyLine \<Rightarrow> string \<Rightarrow> ('t, 'f) HAProxyLine" where
  "haproxyQueues line queues =
     (let parts = Split queues (CHR ''/'')
      in if length parts = 2
         then line\<lparr>ServerQueue := fst (Atoi (parts ! 0)), BackendQueue := fst (Atoi (parts ! 1))\<rparr>
         else line)"

text \<open>\<open>line.fields[15][1:]\<close> panics on the empty string.\<close>

definition haproxyBody :: "('t, 'f) HAProxyLine \<Rightarrow> string list \<Rightarrow> ('t, 'f) HAProxyLine option" where
  "haproxyBody line fs =
     (let line1 = line\<lparr>Frontend := fs ! 5\<rparr>;
          line2 = haproxyBackend line1 (fs ! 6);
          line3 = haproxyTimes line2 (fs ! 7);
          line4 = line3\<lparr>HAProxy_Status := fs ! 8, HAProxy_Length := fst (Atoi (fs ! 9))\<rparr>;
          line5 = haproxyConnections line4 (fs ! 13);
          line6 = haproxyQueues line5 (fs ! 14)
      in if fs ! 15 = [] then None
         else Some (line6\<lparr>HAProxy_Method := drop 1 (fs ! 15), HAProxy_Uri := fs ! 16\<rparr>))"

definition HAProxyLine_Parse ::
  "('t, 'f) golib \<Rightarrow> ('t, 'f) HAProxyLine \<Rightarrow> string \<Rightarrow>
   (error option \<times> ('t, 'f) HAProxyLine) option" where
  "HAProxyLine_Parse lib line raw =
     (case SyslogLine_Parse lib (HAProxy_SyslogLine line) raw of
        None \<Rightarrow> None
      | Some (e, sl) \<Rightarrow>
          (let line1 = line\<lparr>HAProxy_SyslogLine := sl\<rparr>
           in if e \<noteq> None then Some (e, line1)
              else if Tag sl \<noteq> ''haproxy'' then Some (Some (Errorf ''tag was %s'' (Tag sl)), line1)
              else if length (fields_list sl) > 16
              then map_option (Pair None) (haproxyBody line1 (fields_list sl))
              else Some (None, line1)))"

text \<open>The zero values \<open>UnicornLine{}\<close>, \<open>NginxLine{}\<close> and \<open>HAProxyLine{}\<close>.\<close>

definition newUnicornLine :: "('t, 'f) golib \<Rightarrow> ('t, 'f) UnicornLine" where
  "newUnicornLine lib = \<lparr>UUID = [], Unicorn_SyslogLine = newSyslogLine lib\<rparr>"

definition newNginxLine :: "('t, 'f) golib \<Rightarrow> ('t, 'f) NginxLine" where
  "newNginxLine lib =
     \<lparr>Nginx_SyslogLine = None, Nginx_Method = [], Nginx_Status = [], Nginx_Length = 0,
      TotalTime = zeroFloat lib, UnicornTime = zeroFloat lib, HttpHost = [],
      UserAgentName = [], Nginx_Uri = [], Referer = []\<rparr>"

definition newHAProxyLine :: "('t, 'f) golib \<Rightarrow> ('t, 'f) HAProxyLine" where
  "newHAProxyLine lib =
     \<lparr>HAProxy_SyslogLine = newSyslogLine lib, Frontend = [], Backend = [], BackendHost = [],
      BackendImageId = [], BackendContainerId = [], HAProxy_Status = [], HAProxy_Length = 0,
      ClientRequestTime = 0, ConnectionQueueTime = 0, TcpConnectTime = 0,
      ServerResponseTime = 0, SessionDurationTime = 0, ActiveConnections = 0,
      FrontendConnections = 0, BackendConnectons = 0, ServerConnections = 0, Retries = 0,
      ServerQueue = 0, BackendQueue = 0, HAProxy_Method = [], HAProxy_Uri = []\<rparr>"

section \<open>A library for closed instances\<close>

text \<open>
  Where a statement is evaluated at a concrete line, the two library parameters are
  instantiated by the part of their behaviour that the fixtures use. \<open>shapeTime\<close> accepts
  the values that have a digit wherever the layout has one, a sign where the layout has
  the sign of the zone offset, and the layout's own byte elsewhere; the time it returns
  is the text it read. \<open>decimalFloat\<close> reads an optional sign and decimal digits with at
  most one point, as mantissa and number of digits after the point.
\<close>

fun matchLayout :: "string \<Rightarrow> string \<Rightarrow> bool" where
  "matchLayout [] [] = True"
| "matchLayout (l # ls) (v # vs) =
     ((if isDigit l then isDigit v
       else if l = CHR ''-'' \<and> length ls = 5 then v = CHR ''+'' \<or> v = CHR ''-''
       else v = l) \<and> matchLayout ls vs)"
| "matchLayout _ _ = False"

definition shapeTime :: "string \<Rightarrow> string \<Rightarrow> string \<times> bool" where
  "shapeTime layout v = (if matchLayout layout v then (v, True) else ([], False))"

definition decimalFloat :: "string \<Rightarrow> (int \<times> nat) \<times> bool" where
  "decimalFloat s =
     (let neg = HasPrefix s (CHR ''-'');
          ds = (if HasPrefix s (CHR ''+'') \<or> HasPrefix s (CHR ''-'') then drop 1 s else s);
          ip = takeWhile isDigit ds;
          r = dropWhile isDigit ds;
          fp = drop 1 r
      in if (r = [] \<or> HasPrefix r (CHR ''.'')) \<and> list_all isDigit fp \<and> ip @ fp \<noteq> []
         then ((if neg then - int (digitsValue (ip @ fp)) else int (digitsValue (ip @ fp)),
                length fp), True)
         else ((0, 0), False))"

definition sampleLib :: "(string, int \<times> nat) golib" where
  "sampleLib =
     \<lparr>time_Parse = shapeTime, zeroTime = [], ParseFloat = decimalFloat, zeroFloat = (0, 0)\<rparr>"

section \<open>Definitions for the proofs\<close>

text \<open>
  Each round of the two loops of \<open>NginxLine.Parse\<close> assigns at most one field, so a loop
  leaves in a field the value of the last round that assigned it. \<open>lastValue key fs\<close> is
  the value of the last token \<open>key=value\<close> of \<open>fs\<close>, \<open>lastQuote key qs\<close> the group 2 of the last
  match of \<open>qs\<close> whose group 1 is \<open>key\<close>.
\<close>

definition lastValue :: "string \<Rightarrow> string list \<Rightarrow> string option" where
  "lastValue key fs =
     foldl (\<lambda>acc f. if length (SplitN2 f (CHR ''='')) = 2 \<and> SplitN2 f (CHR ''='') ! 0 = key
                     then Some (SplitN2 f (CHR ''='') ! 1) else acc) None fs"

definition lastQuote :: "string \<Rightarrow> string list list \<Rightarrow> string option" where
  "lastQuote key qs = foldl (\<lambda>acc q. if q ! 1 = key then Some (q ! 2) else acc) None qs"

definition orElse :: "'a option \<Rightarrow> 'a \<Rightarrow> 'a" where
  "orElse x d = (case x of None \<Rightarrow> d | Some v \<Rightarrow> v)"

text \<open>
  The two searches are unfolded by their closed instances only, not by the simplifier.
\<close>

declare quotesRegexp_FindAllStringSubmatch.simps [simp del]
declare UUIDRegexp_FindStringSubmatch.simps [simp del]

section \<open>Tokens\<close>

text \<open>A token of \<open>strings.Fields\<close> is never empty, so no index of \<open>Parse\<close> panics.\<close>

lemma fieldsFrom_nonempty: "f \<in> set (fieldsFrom cur s) \<Longrightarrow> f \<noteq> []"
  by (induction cur s rule: fieldsFrom.induct) (auto split: if_splits)

lemma Fields_nonempty: "f \<in> set (Fields s) \<Longrightarrow> f \<noteq> []"
  unfolding Fields_def by (rule fieldsFrom_nonempty)

lemma Fields_nth_nonempty: "i < length (Fields s) \<Longrightarrow> Fields s ! i \<noteq> []"
  using Fields_nonempty nth_mem by blast

lemma Fields_Nil: "Fields [] = []"
  by (simp add: Fields_def)

lemma splitTagAndPid_total: "raw \<noteq> [] \<Longrightarrow> splitTagAndPid raw \<noteq> None"
  by (simp add: splitTagAndPid_def Let_def)

lemma parseTag_total: "raw \<noteq> [] \<Longrightarrow> \<exists>tag sev pid. parseTag raw = Some (tag, sev, pid)"
  using splitTagAndPid_total [of raw] by (auto simp: parseTag_def split: option.splits)

section \<open>The envelope\<close>

lemma Fields_hello_world: "Fields ''hello world'' = [''hello'', ''world'']"
  by code_simp

text \<open>
  C5. A line with fewer than three tokens: \<open>SyslogLine.Parse\<close> returns nil, and sets only
  \<open>Raw\<close>, the tokens and the parsed flag. \<open>Time\<close>, \<open>Host\<close> and \<open>Tag\<close> stay as they were: at
  their zero values on a new record.
\<close>

theorem short_line_parses_without_envelope:
  assumes "\<not> parsed line" and "length (Fields raw) < 3"
  shows "SyslogLine_Parse lib line raw =
           Some (None, line\<lparr>Raw := raw, fields_list := Fields raw, parsed := True\<rparr>)
         \<and> (\<exists>line'. SyslogLine_Parse lib (newSyslogLine lib) raw = Some (None, line')
               \<and> Time line' = zeroTime lib \<and> Host line' = [] \<and> Tag line' = [])"
  using assms by (simp add: SyslogLine_Parse_def Let_def newSyslogLine_def)

theorem short_line_parses_without_envelope_witness:
  "\<not> parsed (newSyslogLine sampleLib) \<and> length (Fields ''hello world'') < 3
   \<and> SyslogLine_Parse sampleLib (newSyslogLine sampleLib) ''hello world'' =
       Some (None, (newSyslogLine sampleLib)
                     \<lparr>Raw := ''hello world'', fields_list := [''hello'', ''world''],
                      parsed := True\<rparr>)"
  using short_line_parses_without_envelope
          [of "newSyslogLine sampleLib" "''hello world''" sampleLib]
  by (simp add: Fields_hello_world newSyslogLine_def)

lemma parseHostAndTag_nonempty:
  assumes "fields_list line ! 2 \<noteq> []"
  shows "\<exists>tag sev pid. parseTag (fields_list line ! 2) = Some (tag, sev, pid) \<and>
     parseHostAndTag line = Some (None, line\<lparr>Host := fields_list line ! 1, Tag := tag, Severity := sev, Pid := pid, parsed := True\<rparr>)"
  using parseTag_total [OF assms] by (auto simp: parseHostAndTag_def)

text \<open>
  C6. A line with at least three tokens: token 0 is parsed with \<open>timeLayout\<close> first and with
  \<open>timeLayoutWithoutMicro\<close> only when that fails; \<open>Time\<close> is the result of the layout that
  matched. \<open>Parse\<close> returns an error exactly when neither layout matches, and then \<open>Host\<close>,
  \<open>Tag\<close>, \<open>Severity\<close> and \<open>Pid\<close> are not assigned and the record is not marked parsed.
  Otherwise \<open>Host\<close> is token 1 and token 2 gives \<open>Tag\<close>, \<open>Severity\<close> and \<open>Pid\<close>.
\<close>

theorem timestamp_layouts_tried_in_order:
  assumes "\<not> parsed line" and "3 \<le> length (Fields raw)"
  shows "\<exists>e line'. SyslogLine_Parse lib line raw = Some (e, line')
    \<and> (e \<noteq> None) = (\<not> snd (time_Parse lib timeLayout (Fields raw ! 0))
                     \<and> \<not> snd (time_Parse lib timeLayoutWithoutMicro (Fields raw ! 0)))
    \<and> Time line' = (if snd (time_Parse lib timeLayout (Fields raw ! 0))
                    then fst (time_Parse lib timeLayout (Fields raw ! 0))
                    else fst (time_Parse lib timeLayoutWithoutMicro (Fields raw ! 0)))
    \<and> (if e \<noteq> None
        then Host line' = Host line \<and> Tag line' = Tag line \<and> Severity line' = Severity line
             \<and> Pid line' = Pid line \<and> \<not> parsed line'
        else Host line' = Fields raw ! 1
             \<and> parseTag (Fields raw ! 2) = Some (Tag line', Severity line', Pid line')
             \<and> parsed line')"
proof -
  have ne: "Fields raw ! 2 \<noteq> []"
    using assms(2) by (simp add: Fields_nth_nonempty)
  show ?thesis
  proof (cases "snd (time_Parse lib timeLayout (Fields raw ! 0))")
    case True
    define l2 where "l2 = line\<lparr>Raw := raw, fields_list := Fields raw, Time := fst (time_Parse lib timeLayout (Fields raw ! 0))\<rparr>"
    have "fields_list l2 ! 2 \<noteq> []" using ne by (simp add: l2_def)
    from parseHostAndTag_nonempty [OF this] obtain tag sev pid where
      "parseTag (Fields raw ! 2) = Some (tag, sev, pid)"
      "parseHostAndTag l2 = Some (None, l2\<lparr>Host := Fields raw ! 1, Tag := tag, Severity := sev, Pid := pid, parsed := True\<rparr>)"
      by (auto simp: l2_def)
    then show ?thesis using assms True
      by (simp add: SyslogLine_Parse_def Let_def l2_def)
  next
    case False
    note f1 = False
    show ?thesis
    proof (cases "snd (time_Parse lib timeLayoutWithoutMicro (Fields raw ! 0))")
      case True
      define l3 where "l3 = line\<lparr>Raw := raw, fields_list := Fields raw, Time := fst (time_Parse lib timeLayout (Fields raw ! 0)), Time := fst (time_Parse lib timeLayoutWithoutMicro (Fields raw ! 0))\<rparr>"
      have "fields_list l3 ! 2 \<noteq> []" using ne by (simp add: l3_def)
      from parseHostAndTag_nonempty [OF this] obtain tag sev pid where
        "parseTag (Fields raw ! 2) = Some (tag, sev, pid)"
        "parseHostAndTag l3 = Some (None, l3\<lparr>Host := Fields raw ! 1, Tag := tag, Severity := sev, Pid := pid, parsed := True\<rparr>)"
        by (auto simp: l3_def)
      then show ?thesis using assms True f1
        by (simp add: SyslogLine_Parse_def Let_def l3_def)
    next
      case False
      then show ?thesis using assms f1
        by (simp add: SyslogLine_Parse_def Let_def)
    qed
  qed
qed

lemma Fields_yesterday:
  "Fields ''yesterday host1 app: started'' = [''yesterday'', ''host1'', ''app:'', ''started'']"
  by code_simp

lemma shapeTime_yesterday: "shapeTime timeLayout ''yesterday'' = ([], False)"
  by code_simp

lemma shapeTime_yesterday_without_micro:
  "shapeTime timeLayoutWithoutMicro ''yesterday'' = ([], False)"
  by code_simp

theorem timestamp_layouts_tried_in_order_witness:
  "\<not> parsed (newSyslogLine sampleLib) \<and> 3 \<le> length (Fields ''yesterday host1 app: started'')
   \<and> (\<exists>e line'. SyslogLine_Parse sampleLib (newSyslogLine sampleLib) ''yesterday host1 app: started'' = Some (Some e, line') \<and> Host line' = [] \<and> Tag line' = [] \<and> \<not> parsed line')"
  using timestamp_layouts_tried_in_order [of "newSyslogLine sampleLib" "''yesterday host1 app: started''" sampleLib]
  by (auto simp add: Fields_yesterday shapeTime_yesterday shapeTime_yesterday_without_micro
        newSyslogLine_def sampleLib_def)

text \<open>
  C10. When \<open>SyslogLine.Parse\<close> on a new record returns the timestamp error, the record
  has changed: \<open>Raw\<close> and the tokens are those of the failing line, and the record is not
  marked parsed. The next \<open>Parse\<close> on it, with any line, therefore parses again: it
  returns with \<open>Raw\<close> and the tokens of the new line.
\<close>

theorem failed_parse_keeps_raw_and_tokens:
  assumes "SyslogLine_Parse lib (newSyslogLine lib) raw = Some (Some e, line')"
  shows "line' \<noteq> newSyslogLine lib \<and> Raw line' = raw \<and> fields_list line' = Fields raw
         \<and> \<not> parsed line'
         \<and> (\<forall>raw2. \<exists>e2 line2. SyslogLine_Parse lib line' raw2 = Some (e2, line2)
                \<and> Raw line2 = raw2 \<and> fields_list line2 = Fields raw2)"
proof -
  have np: "\<not> parsed (newSyslogLine lib)"
    by (simp add: newSyslogLine_def)
  have long: "3 \<le> length (Fields raw)"
    using assms np by (auto simp: SyslogLine_Parse_def Let_def split: if_splits)
  have shape: "Raw line' = raw \<and> fields_list line' = Fields raw \<and> \<not> parsed line'"
    using assms long np
    by (auto simp: SyslogLine_Parse_def Let_def parseHostAndTag_def
             split: if_splits option.splits)
  have "raw \<noteq> []"
    using long Fields_Nil by fastforce
  then have changed: "line' \<noteq> newSyslogLine lib"
    using shape by (auto simp: newSyslogLine_def)
  have again: "\<exists>e2 line2. SyslogLine_Parse lib line' raw2 = Some (e2, line2)
                \<and> Raw line2 = raw2 \<and> fields_list line2 = Fields raw2" for raw2
  proof (cases "3 \<le> length (Fields raw2)")
    case True
    then have "Fields raw2 ! 2 \<noteq> []"
      by (simp add: Fields_nth_nonempty)
    then obtain tag sev pid where "parseTag (Fields raw2 ! 2) = Some (tag, sev, pid)"
      using parseTag_total by blast
    then show ?thesis using shape True
      by (simp add: SyslogLine_Parse_def Let_def parseHostAndTag_def)
  next
    case False
    then show ?thesis using shape
      by (simp add: SyslogLine_Parse_def Let_def)
  qed
  show ?thesis using shape changed again by blast
qed

theorem failed_parse_keeps_raw_and_tokens_witness:
  "SyslogLine_Parse sampleLib (newSyslogLine sampleLib) ''yesterday host1 app: started'' =
     Some (Some (ParseError timeLayoutWithoutMicro ''yesterday''),
           (newSyslogLine sampleLib)
             \<lparr>Raw := ''yesterday host1 app: started'',
              fields_list := [''yesterday'', ''host1'', ''app:'', ''started'']\<rparr>)
   \<and> (\<exists>e2 line2. SyslogLine_Parse sampleLib
          ((newSyslogLine sampleLib)
             \<lparr>Raw := ''yesterday host1 app: started'',
              fields_list := [''yesterday'', ''host1'', ''app:'', ''started'']\<rparr>)
          ''hello world'' = Some (e2, line2) \<and> Raw line2 = ''hello world''
        \<and> fields_list line2 = Fields ''hello world'')"
proof -
  have run: "SyslogLine_Parse sampleLib (newSyslogLine sampleLib) ''yesterday host1 app: started'' =
     Some (Some (ParseError timeLayoutWithoutMicro ''yesterday''),
           (newSyslogLine sampleLib)
             \<lparr>Raw := ''yesterday host1 app: started'',
              fields_list := [''yesterday'', ''host1'', ''app:'', ''started'']\<rparr>)"
    by (simp add: SyslogLine_Parse_def Let_def Fields_yesterday shapeTime_yesterday
          shapeTime_yesterday_without_micro newSyslogLine_def sampleLib_def)
  from failed_parse_keeps_raw_and_tokens [OF run] show ?thesis
    using run by blast
qed

section \<open>Tag and severity\<close>

lemma Split_not_Nil: "Split s sep \<noteq> []"
  by (induction s) (auto split: list.splits)

lemma length_Split: "length (Split s sep) = Suc (length (filter (\<lambda>c. c = sep) s))"
  by (induction s) (auto split: list.splits simp: Split_not_Nil)

lemma Split_none: "sep \<notin> set s \<Longrightarrow> Split s sep = [s]"
  by (induction s) auto

lemma Split_once:
  "length (filter (\<lambda>c. c = sep) s) = 1 \<Longrightarrow>
   Split s sep = [takeWhile (\<lambda>c. c \<noteq> sep) s, tl (dropWhile (\<lambda>c. c \<noteq> sep) s)]"
proof (induction s)
  case Nil
  then show ?case by simp
next
  case (Cons c cs)
  show ?case
  proof (cases "c = sep")
    case True
    with Cons.prems have "sep \<notin> set cs"
      by (auto simp: filter_empty_conv)
    with True show ?thesis by (simp add: Split_none)
  next
    case False
    with Cons show ?thesis by simp
  qed
qed

lemma splitTagAndSeverity_cases:
  "splitTagAndSeverity c =
     (if length (filter (\<lambda>x. x = CHR ''.'') c) = 1
      then (takeWhile (\<lambda>x. x \<noteq> CHR ''.'') c, tl (dropWhile (\<lambda>x. x \<noteq> CHR ''.'') c))
      else (c, []))"
  by (simp add: splitTagAndSeverity_def Let_def length_Split Split_once)

lemma Fields_app_web: "Fields ''2014-06-01T12:00:00+00:00 host1 app.web.1: started'' =
   [''2014-06-01T12:00:00+00:00'', ''host1'', ''app.web.1:'', ''started'']"
  by code_simp

lemma shapeTime_micro_sample: "shapeTime timeLayout ''2014-06-01T12:00:00+00:00'' = ([], False)"
  by code_simp

lemma shapeTime_sample: "shapeTime timeLayoutWithoutMicro ''2014-06-01T12:00:00+00:00'' =
   (''2014-06-01T12:00:00+00:00'', True)"
  by code_simp

lemma parseTag_app_web: "parseTag ''app.web.1:'' = Some (''app.web.1'', [], 0)"
  by code_simp

lemma splitTagAndPid_app_web: "splitTagAndPid ''app.web.1:'' = Some (''app.web.1'', 0)"
  by code_simp

text \<open>
  C4 reads: a candidate with a \<open>.\<close> is cut at its first \<open>.\<close> into \<open>Tag\<close> and \<open>Severity\<close>.
  The code cuts at every \<open>.\<close> and takes the parts only when there are exactly two: the
  token \<open>app.web.1:\<close> gives the tag \<open>app.web.1\<close> and no severity, not \<open>app\<close> and \<open>web.1\<close>.
\<close>

theorem severity_first_dot_counterexample:
  "splitTagAndPid ''app.web.1:'' = Some (''app.web.1'', 0)
   \<and> takeWhile (\<lambda>c. c \<noteq> CHR ''.'') ''app.web.1'' = ''app''
   \<and> (\<exists>line'. SyslogLine_Parse sampleLib (newSyslogLine sampleLib)
          ''2014-06-01T12:00:00+00:00 host1 app.web.1: started'' = Some (None, line')
        \<and> Tag line' = ''app.web.1'' \<and> Severity line' = [] \<and> Tag line' \<noteq> ''app'')"
  by (simp add: splitTagAndPid_app_web SyslogLine_Parse_def Let_def parseHostAndTag_def
        Fields_app_web shapeTime_micro_sample shapeTime_sample parseTag_app_web
        newSyslogLine_def sampleLib_def)

text \<open>
  C4, as the code has it. On a line with at least three tokens that parses, the candidate
  is what \<open>splitTagAndPid\<close> leaves of token 2. A candidate with exactly one \<open>.\<close> gives the
  part before it as \<open>Tag\<close> and the part after it as \<open>Severity\<close>; a candidate with no \<open>.\<close>,
  or with more than one, is the \<open>Tag\<close> as a whole, and \<open>Severity\<close> is empty.
\<close>

theorem tag_and_severity_of_candidate:
  assumes "\<not> parsed line" and "3 \<le> length (Fields raw)"
      and "SyslogLine_Parse lib line raw = Some (None, line')"
  shows "\<exists>candidate pid. splitTagAndPid (Fields raw ! 2) = Some (candidate, pid)
           \<and> Pid line' = pid
           \<and> (Tag line', Severity line') =
               (if length (filter (\<lambda>c. c = CHR ''.'') candidate) = 1
                then (takeWhile (\<lambda>c. c \<noteq> CHR ''.'') candidate,
                      tl (dropWhile (\<lambda>c. c \<noteq> CHR ''.'') candidate))
                else (candidate, []))"
proof -
  define P where "P \<longleftrightarrow>
    (\<exists>candidate pid. splitTagAndPid (Fields raw ! 2) = Some (candidate, pid)
           \<and> Pid line' = pid
           \<and> (Tag line', Severity line') =
               (if length (filter (\<lambda>c. c = CHR ''.'') candidate) = 1
                then (takeWhile (\<lambda>c. c \<noteq> CHR ''.'') candidate,
                      tl (dropWhile (\<lambda>c. c \<noteq> CHR ''.'') candidate))
                else (candidate, [])))"
  have step: "P"
    if "parseHostAndTag (line\<lparr>Raw := raw, fields_list := Fields raw, Time := t\<rparr>)
          = Some (None, line')" for t
    using that unfolding P_def
    by (auto simp: parseHostAndTag_def parseTag_def splitTagAndSeverity_cases
             split: option.splits if_splits)
  have "P"
    using assms step by (auto simp: SyslogLine_Parse_def Let_def split: if_splits)
  then show ?thesis unfolding P_def .
qed

lemma Fields_nginx_info: "Fields ''2014-06-01T12:00:00+00:00 host1 nginx.info[7]: started'' =
   [''2014-06-01T12:00:00+00:00'', ''host1'', ''nginx.info[7]:'', ''started'']"
  by code_simp

lemma parseTag_nginx_info: "parseTag ''nginx.info[7]:'' = Some (''nginx'', ''info'', 7)"
  by code_simp

lemma splitTagAndPid_nginx_info: "splitTagAndPid ''nginx.info[7]:'' = Some (''nginx.info'', 7)"
  by code_simp

theorem tag_and_severity_of_candidate_witness:
  "\<not> parsed (newSyslogLine sampleLib)
   \<and> 3 \<le> length (Fields ''2014-06-01T12:00:00+00:00 host1 nginx.info[7]: started'')
   \<and> (\<exists>line'. SyslogLine_Parse sampleLib (newSyslogLine sampleLib)
          ''2014-06-01T12:00:00+00:00 host1 nginx.info[7]: started'' = Some (None, line')
        \<and> splitTagAndPid (Fields ''2014-06-01T12:00:00+00:00 host1 nginx.info[7]: started'' ! 2)
            = Some (''nginx.info'', 7)
        \<and> Pid line' = 7 \<and> Tag line' = ''nginx'' \<and> Severity line' = ''info'')"
proof -
  have np: "\<not> parsed (newSyslogLine sampleLib)"
    by (simp add: newSyslogLine_def)
  have long: "3 \<le> length (Fields ''2014-06-01T12:00:00+00:00 host1 nginx.info[7]: started'')"
    by (simp add: Fields_nginx_info)
  obtain line' where run: "SyslogLine_Parse sampleLib (newSyslogLine sampleLib)
          ''2014-06-01T12:00:00+00:00 host1 nginx.info[7]: started'' = Some (None, line')"
    by (simp add: SyslogLine_Parse_def Let_def parseHostAndTag_def
        Fields_nginx_info shapeTime_micro_sample shapeTime_sample parseTag_nginx_info
        newSyslogLine_def sampleLib_def)
  from tag_and_severity_of_candidate [OF np long run] show ?thesis
    using np long run by (auto simp: Fields_nginx_info splitTagAndPid_nginx_info)
qed

section \<open>The adapters and the tag\<close>

lemma SyslogLine_Parse_new:
  assumes "\<not> parsed line" and "SyslogLine_Parse lib line raw = Some (e, line')"
  shows "Raw line' = raw \<and> fields_list line' = Fields raw"
  using assms
  by (auto simp: SyslogLine_Parse_def Let_def parseHostAndTag_def
           split: if_splits option.splits)

lemma haproxyBody_total:
  assumes "16 < length fs" and "\<forall>f\<in>set fs. f \<noteq> []"
  shows "\<exists>line'. haproxyBody line fs = Some line'"
proof -
  have "fs ! 15 \<in> set fs" using assms(1) by simp
  then have "fs ! 15 \<noteq> []" using assms(2) by blast
  then show ?thesis by (simp add: haproxyBody_def Let_def)
qed

text \<open>
  C9. On a line whose envelope parses, each adapter returns an error exactly when the
  tag of the envelope is not the one it expects (\<open>unicorn\<close>; \<open>ssl_endpoint\<close> or \<open>nginx\<close>;
  \<open>haproxy\<close>), and the error is built from that tag: a line tagged \<open>unicorn\<close> given to
  \<open>HAProxyLine.Parse\<close> returns the error made of \<open>tag was %s\<close> and \<open>unicorn\<close>.
\<close>

theorem adapters_reject_foreign_tags:
  assumes "SyslogLine_Parse lib (newSyslogLine lib) raw = Some (None, sl)"
  shows "(\<exists>u'. UnicornLine_Parse lib (newUnicornLine lib) raw =
            Some (if Tag sl = ''unicorn'' then None
                  else Some (Errorf ''tag %q not supported'' (Tag sl)), u'))
       \<and> (\<exists>n'. NginxLine_Parse lib (newNginxLine lib) raw =
            Some (if Tag sl = ''ssl_endpoint'' \<or> Tag sl = ''nginx'' then None
                  else Some (Errorf ''tag %q not supported'' (Tag sl)), n'))
       \<and> (\<exists>h'. HAProxyLine_Parse lib (newHAProxyLine lib) raw =
            Some (if Tag sl = ''haproxy'' then None
                  else Some (Errorf ''tag was %s'' (Tag sl)), h'))"
proof -
  have "\<not> parsed (newSyslogLine lib)"
    by (simp add: newSyslogLine_def)
  from SyslogLine_Parse_new [OF this assms] have fs: "fields_list sl = Fields raw"
    by simp
  have u: "\<exists>u'. UnicornLine_Parse lib (newUnicornLine lib) raw =
            Some (if Tag sl = ''unicorn'' then None
                  else Some (Errorf ''tag %q not supported'' (Tag sl)), u')"
    using assms by (simp add: UnicornLine_Parse_def newUnicornLine_def Let_def)
  have n: "\<exists>n'. NginxLine_Parse lib (newNginxLine lib) raw =
            Some (if Tag sl = ''ssl_endpoint'' \<or> Tag sl = ''nginx'' then None
                  else Some (Errorf ''tag %q not supported'' (Tag sl)), n')"
    using assms by (auto simp add: NginxLine_Parse_def newNginxLine_def Let_def)
  have h: "\<exists>h'. HAProxyLine_Parse lib (newHAProxyLine lib) raw =
            Some (if Tag sl = ''haproxy'' then None
                  else Some (Errorf ''tag was %s'' (Tag sl)), h')"
  proof (cases "Tag sl = ''haproxy'' \<and> 16 < length (Fields raw)")
    case True
    then obtain h' where
      "haproxyBody ((newHAProxyLine lib)\<lparr>HAProxy_SyslogLine := sl\<rparr>) (Fields raw) = Some h'"
      using haproxyBody_total [of "Fields raw"] Fields_nonempty by blast
    then show ?thesis using assms True fs
      by (simp add: HAProxyLine_Parse_def newHAProxyLine_def Let_def)
  next
    case False
    then show ?thesis using assms fs
      by (auto simp add: HAProxyLine_Parse_def newHAProxyLine_def Let_def)
  qed
  show ?thesis using u n h by blast
qed

lemma Fields_unicorn_short: "Fields ''2014-06-01T12:00:00+00:00 host1 unicorn[3]: started'' =
   [''2014-06-01T12:00:00+00:00'', ''host1'', ''unicorn[3]:'', ''started'']"
  by code_simp

lemma parseTag_unicorn: "parseTag ''unicorn[3]:'' = Some (''unicorn'', [], 3)"
  by code_simp

theorem adapters_reject_foreign_tags_witness:
  "(\<exists>sl. SyslogLine_Parse sampleLib (newSyslogLine sampleLib)
            ''2014-06-01T12:00:00+00:00 host1 unicorn[3]: started'' = Some (None, sl)
          \<and> Tag sl = ''unicorn'')
   \<and> (\<exists>u'. UnicornLine_Parse sampleLib (newUnicornLine sampleLib)
            ''2014-06-01T12:00:00+00:00 host1 unicorn[3]: started'' = Some (None, u'))
   \<and> (\<exists>n'. NginxLine_Parse sampleLib (newNginxLine sampleLib)
            ''2014-06-01T12:00:00+00:00 host1 unicorn[3]: started'' =
            Some (Some (Errorf ''tag %q not supported'' ''unicorn''), n'))
   \<and> (\<exists>h'. HAProxyLine_Parse sampleLib (newHAProxyLine sampleLib)
            ''2014-06-01T12:00:00+00:00 host1 unicorn[3]: started'' =
            Some (Some (Errorf ''tag was %s'' ''unicorn''), h'))"
proof -
  obtain sl where run: "SyslogLine_Parse sampleLib (newSyslogLine sampleLib)
            ''2014-06-01T12:00:00+00:00 host1 unicorn[3]: started'' = Some (None, sl)"
     and tag: "Tag sl = ''unicorn''"
    by (simp add: SyslogLine_Parse_def Let_def parseHostAndTag_def
        Fields_unicorn_short shapeTime_micro_sample shapeTime_sample parseTag_unicorn
        newSyslogLine_def sampleLib_def)
  from adapters_reject_foreign_tags [OF run] show ?thesis
    using run tag by auto
qed

section \<open>The body of a load balancer line\<close>





lemma haproxyBody_fields:
  assumes "haproxyBody line fs = Some line'"
  shows "Frontend line' = fs ! 5 \<and> HAProxy_Status line' = fs ! 8
         \<and> HAProxy_Length line' = fst (Atoi (fs ! 9))
         \<and> HAProxy_Method line' = drop 1 (fs ! 15) \<and> HAProxy_Uri line' = fs ! 16
         \<and> HAProxy_SyslogLine line' = HAProxy_SyslogLine line"
  using assms
  by (auto simp: haproxyBody_def haproxyBackend_def haproxyTimes_def haproxyConnections_def
        haproxyQueues_def Let_def split: if_splits)




lemma Fields_haproxy_short:
  "Fields ''2014-06-01T12:00:00+00:00 host1 haproxy[99]: started'' = [''2014-06-01T12:00:00+00:00'', ''host1'', ''haproxy[99]:'', ''started'']"
  by code_simp

lemma parseTag_haproxy: "parseTag ''haproxy[99]:'' = Some (''haproxy'', [], 99)"
  by code_simp



section \<open>The tag map\<close>

text \<open>
  C3 says that the map is computed once and then served from the cache. \<open>Tags\<close> tests
  \<open>tagsParsed\<close> and stores the map in \<open>tags\<close>, but nothing sets the flag: after a call
  it is still false, and the next call computes the map from \<open>Raw\<close> again, whatever
  \<open>tags\<close> holds.
\<close>

theorem tags_flag_never_set:
  assumes "\<not> tagsParsed line" and "Tags lib line = Some (line', m)"
  shows "\<not> tagsParsed line' \<and> tags line' = m
         \<and> Tags lib (line'\<lparr>Raw := raw2\<rparr>) =
             map_option (\<lambda>m2. (line'\<lparr>Raw := raw2, tags := m2\<rparr>, m2)) (parseTags lib raw2)"
  using assms by (auto simp: Tags_def split: option.splits)

lemmas scan_defs =
  parseTagsField_def SplitN2_def validKeyRegexp_MatchString_def isLower_def isUpper_def
  Contains_def HasSuffix_def HasPrefix_def callsRegexp_FindStringSubmatch_def isDigit_def
  parseTagValue_def ParseInt_def decimalInt_def digitsValue_def maxInt64_def minInt64_def
  removeQuotes_def Let_def

lemma Fields_user_alice: "Fields ''user=alice'' = [''user=alice'']"
  by code_simp

lemma Fields_user_bob: "Fields ''user=bob'' = [''user=bob'']"
  by code_simp

lemma decimalFloat_words:
  "decimalFloat ''alice'' = ((0, 0), False)" "decimalFloat ''bob'' = ((0, 0), False)"
  "decimalFloat ''val'' = ((0, 0), False)" "decimalFloat ''0.5'' = ((5, 1), True)"
  "decimalFloat ''0.12'' = ((12, 2), True)"
  by code_simp+

lemma parseTags_user_alice:
  "parseTags sampleLib ''user=alice'' = Some [''user'' \<mapsto> StringValue ''alice'']"
  by (simp add: parseTags_def Fields_user_alice scan_defs sampleLib_def decimalFloat_words)

lemma parseTags_user_bob:
  "parseTags sampleLib ''user=bob'' = Some [''user'' \<mapsto> StringValue ''bob'']"
  by (simp add: parseTags_def Fields_user_bob scan_defs sampleLib_def decimalFloat_words)

theorem tags_flag_never_set_witness:
  "\<not> tagsParsed ((newSyslogLine sampleLib)\<lparr>Raw := ''user=alice''\<rparr>)
   \<and> (\<exists>line'. Tags sampleLib ((newSyslogLine sampleLib)\<lparr>Raw := ''user=alice''\<rparr>)
                = Some (line', [''user'' \<mapsto> StringValue ''alice''])
          \<and> \<not> tagsParsed line'
          \<and> tags line' = [''user'' \<mapsto> StringValue ''alice'']
          \<and> Tags sampleLib (line'\<lparr>Raw := ''user=bob''\<rparr>) =
              Some (line'\<lparr>Raw := ''user=bob'', tags := [''user'' \<mapsto> StringValue ''bob'']\<rparr>,
                    [''user'' \<mapsto> StringValue ''bob'']))"
proof -
  have np: "\<not> tagsParsed ((newSyslogLine sampleLib)\<lparr>Raw := ''user=alice''\<rparr>)"
    by (simp add: newSyslogLine_def)
  obtain line' where run: "Tags sampleLib ((newSyslogLine sampleLib)\<lparr>Raw := ''user=alice''\<rparr>)
                = Some (line', [''user'' \<mapsto> StringValue ''alice''])"
    using np by (simp add: Tags_def parseTags_user_alice)
  from tags_flag_never_set [OF np run, of "''user=bob''"] show ?thesis
    using np run by (simp add: parseTags_user_bob)
qed

section \<open>The tag tokenizer on the fixture\<close>

lemma Fields_tags_fixture:
  "Fields ''user=alice key=val call_time=0.5/3 blank=- quoted=\"a b c\"'' =
     [''user=alice'', ''key=val'', ''call_time=0.5/3'', ''blank=-'',
      [CHR ''q'', CHR ''u'', CHR ''o'', CHR ''t'', CHR ''e'', CHR ''d'', CHR ''='', dquote, CHR ''a''],
      ''b'', [CHR ''c'', dquote]]"
  by code_simp

lemma Fields_tags_fixture_calltime:
  "Fields ''user=alice key=val calltime=0.5/3 blank=- quoted=\"a b c\"'' =
     [''user=alice'', ''key=val'', ''calltime=0.5/3'', ''blank=-'',
      [CHR ''q'', CHR ''u'', CHR ''o'', CHR ''t'', CHR ''e'', CHR ''d'', CHR ''='', dquote, CHR ''a''],
      ''b'', [CHR ''c'', dquote]]"
  by code_simp

lemma call_time_not_a_key: "\<not> validKeyRegexp_MatchString ''call_time''"
  by code_simp

text \<open>
  C2 reads: the fixture yields \<open>call_time_time\<close> and \<open>call_time_calls\<close>. The key \<open>call_time\<close>
  has an underscore, \<open>validKeyRegexp\<close> does not match it, and the token is skipped: the map
  has the three entries \<open>user\<close>, \<open>key\<close> and \<open>quoted\<close> only.
\<close>

theorem tag_tokenizer_fixture_counterexample:
  "\<not> validKeyRegexp_MatchString ''call_time''
   \<and> parseTags sampleLib ''user=alice key=val call_time=0.5/3 blank=- quoted=\"a b c\"'' =
       Some [''user'' \<mapsto> StringValue ''alice'', ''key'' \<mapsto> StringValue ''val'',
             ''quoted'' \<mapsto> StringValue ''a b c'']
   \<and> [''user'' \<mapsto> StringValue ''alice'', ''key'' \<mapsto> StringValue ''val'',
       ''quoted'' \<mapsto> (StringValue ''a b c'' :: (int \<times> nat) tagValue)] ''call_time_time'' = None
   \<and> [''user'' \<mapsto> StringValue ''alice'', ''key'' \<mapsto> StringValue ''val'',
       ''quoted'' \<mapsto> (StringValue ''a b c'' :: (int \<times> nat) tagValue)] ''call_time_calls'' = None"
  by (simp add: call_time_not_a_key parseTags_def Fields_tags_fixture scan_defs sampleLib_def
        decimalFloat_words)

text \<open>
  C2, as the code has it, for every \<open>ParseFloat\<close> that rejects \<open>alice\<close> and \<open>val\<close> (as Go's
  does). The fixture yields exactly \<open>user\<close>, \<open>key\<close> and \<open>quoted\<close>: no entry for \<open>blank\<close>, whose
  value is \<open>-\<close>, and none for \<open>call_time\<close>, which is not a valid key. With the key spelled
  \<open>calltime\<close>, and \<open>ParseFloat\<close> reading \<open>0.5\<close> as \<open>half\<close>, the map has in addition
  \<open>calltime_time\<close>, which is \<open>half\<close>, and \<open>calltime_calls\<close>, which is 3.
\<close>

theorem tag_tokenizer_fixture:
  assumes "\<not> snd (ParseFloat lib ''alice'')" and "\<not> snd (ParseFloat lib ''val'')"
      and "ParseFloat lib ''0.5'' = (half, True)"
  shows "parseTags lib ''user=alice key=val call_time=0.5/3 blank=- quoted=\"a b c\"'' =
           Some [''user'' \<mapsto> StringValue ''alice'', ''key'' \<mapsto> StringValue ''val'',
                 ''quoted'' \<mapsto> StringValue ''a b c'']
         \<and> parseTags lib ''user=alice key=val calltime=0.5/3 blank=- quoted=\"a b c\"'' =
           Some [''user'' \<mapsto> StringValue ''alice'', ''key'' \<mapsto> StringValue ''val'',
                 ''calltime_time'' \<mapsto> FloatValue half, ''calltime_calls'' \<mapsto> IntValue 3,
                 ''quoted'' \<mapsto> StringValue ''a b c'']"
proof -
  have a: "parseTags lib ''user=alice key=val call_time=0.5/3 blank=- quoted=\"a b c\"'' =
           Some [''user'' \<mapsto> StringValue ''alice'', ''key'' \<mapsto> StringValue ''val'',
                 ''quoted'' \<mapsto> StringValue ''a b c'']"
    using assms by (simp add: parseTags_def Fields_tags_fixture scan_defs)
  have b: "parseTags lib ''user=alice key=val calltime=0.5/3 blank=- quoted=\"a b c\"'' =
           Some [''user'' \<mapsto> StringValue ''alice'', ''key'' \<mapsto> StringValue ''val'',
                 ''calltime_time'' \<mapsto> FloatValue half, ''calltime_calls'' \<mapsto> IntValue 3,
                 ''quoted'' \<mapsto> StringValue ''a b c'']"
    using assms by (simp add: parseTags_def Fields_tags_fixture_calltime scan_defs)
  show ?thesis using a b by blast
qed

theorem tag_tokenizer_fixture_witness:
  "\<not> snd (ParseFloat sampleLib ''alice'') \<and> \<not> snd (ParseFloat sampleLib ''val'')
   \<and> ParseFloat sampleLib ''0.5'' = ((5, 1), True)
   \<and> parseTags sampleLib ''user=alice key=val call_time=0.5/3 blank=- quoted=\"a b c\"'' =
           Some [''user'' \<mapsto> StringValue ''alice'', ''key'' \<mapsto> StringValue ''val'',
                 ''quoted'' \<mapsto> StringValue ''a b c'']
   \<and> parseTags sampleLib ''user=alice key=val calltime=0.5/3 blank=- quoted=\"a b c\"'' =
           Some [''user'' \<mapsto> StringValue ''alice'', ''key'' \<mapsto> StringValue ''val'',
                 ''calltime_time'' \<mapsto> FloatValue (5, 1), ''calltime_calls'' \<mapsto> IntValue 3,
                 ''quoted'' \<mapsto> StringValue ''a b c'']"
proof -
  have h: "\<not> snd (ParseFloat sampleLib ''alice'')" "\<not> snd (ParseFloat sampleLib ''val'')"
          "ParseFloat sampleLib ''0.5'' = ((5, 1), True)"
    by (simp_all add: sampleLib_def decimalFloat_words)
  from tag_tokenizer_fixture [OF h] show ?thesis
    using h by blast
qed

section \<open>The two passes of the web server adapter, in closed form\<close>

lemma lastValue_Nil: "lastValue key [] = None"
  by (simp add: lastValue_def)

lemma lastValue_snoc:
  "lastValue key (fs @ [f]) =
     (if length (SplitN2 f (CHR ''='')) = 2 \<and> SplitN2 f (CHR ''='') ! 0 = key
      then Some (SplitN2 f (CHR ''='') ! 1) else lastValue key fs)"
  by (simp add: lastValue_def)

lemma lastQuote_Nil: "lastQuote key [] = None"
  by (simp add: lastQuote_def)

lemma lastQuote_snoc:
  "lastQuote key (qs @ [q]) = (if q ! 1 = key then Some (q ! 2) else lastQuote key qs)"
  by (simp add: lastQuote_def)

lemma foldl_nginxField:
  "foldl (nginxField lib) line fs =
     line\<lparr>Nginx_Method := orElse (lastValue ''method'' fs) (Nginx_Method line),
          Nginx_Status := orElse (lastValue ''status'' fs) (Nginx_Status line),
          Nginx_Length := orElse (map_option (\<lambda>v. fst (Atoi v)) (lastValue ''length'' fs))
                            (Nginx_Length line),
          TotalTime := orElse (map_option (\<lambda>v. fst (ParseFloat lib v)) (lastValue ''total'' fs))
                         (TotalTime line),
          UnicornTime := orElse (map_option (\<lambda>v. fst (ParseFloat lib v))
                            (lastValue ''unicorn_time'' fs)) (UnicornTime line),
          HttpHost := orElse (lastValue ''host'' fs) (HttpHost line)\<rparr>"
proof (induction fs rule: rev_induct)
  case Nil
  then show ?case by (simp add: lastValue_Nil orElse_def)
next
  case (snoc f fs)
  have "foldl (nginxField lib) line (fs @ [f]) = nginxField lib (foldl (nginxField lib) line fs) f"
    by simp
  also have "\<dots> = nginxField lib
      (line\<lparr>Nginx_Method := orElse (lastValue ''method'' fs) (Nginx_Method line),
          Nginx_Status := orElse (lastValue ''status'' fs) (Nginx_Status line),
          Nginx_Length := orElse (map_option (\<lambda>v. fst (Atoi v)) (lastValue ''length'' fs))
                            (Nginx_Length line),
          TotalTime := orElse (map_option (\<lambda>v. fst (ParseFloat lib v)) (lastValue ''total'' fs))
                         (TotalTime line),
          UnicornTime := orElse (map_option (\<lambda>v. fst (ParseFloat lib v))
                            (lastValue ''unicorn_time'' fs)) (UnicornTime line),
          HttpHost := orElse (lastValue ''host'' fs) (HttpHost line)\<rparr>) f"
    by (simp only: snoc)
  also have "\<dots> = line\<lparr>Nginx_Method := orElse (lastValue ''method'' (fs @ [f])) (Nginx_Method line),
          Nginx_Status := orElse (lastValue ''status'' (fs @ [f])) (Nginx_Status line),
          Nginx_Length := orElse (map_option (\<lambda>v. fst (Atoi v)) (lastValue ''length'' (fs @ [f])))
                            (Nginx_Length line),
          TotalTime := orElse (map_option (\<lambda>v. fst (ParseFloat lib v)) (lastValue ''total'' (fs @ [f])))
                         (TotalTime line),
          UnicornTime := orElse (map_option (\<lambda>v. fst (ParseFloat lib v))
                            (lastValue ''unicorn_time'' (fs @ [f]))) (UnicornTime line),
          HttpHost := orElse (lastValue ''host'' (fs @ [f])) (HttpHost line)\<rparr>"
    by (simp add: nginxField_def lastValue_snoc orElse_def Let_def)
  finally show ?case .
qed

lemma foldl_nginxQuote:
  "foldl nginxQuote line qs =
     line\<lparr>UserAgentName := orElse (lastQuote ''ua'' qs) (UserAgentName line),
          Nginx_Uri := orElse (lastQuote ''uri'' qs) (Nginx_Uri line),
          Referer := orElse (lastQuote ''ref'' qs) (Referer line)\<rparr>"
proof (induction qs rule: rev_induct)
  case Nil
  then show ?case by (simp add: lastQuote_Nil orElse_def)
next
  case (snoc q qs)
  have "foldl nginxQuote line (qs @ [q]) = nginxQuote (foldl nginxQuote line qs) q"
    by simp
  also have "\<dots> = nginxQuote
     (line\<lparr>UserAgentName := orElse (lastQuote ''ua'' qs) (UserAgentName line),
          Nginx_Uri := orElse (lastQuote ''uri'' qs) (Nginx_Uri line),
          Referer := orElse (lastQuote ''ref'' qs) (Referer line)\<rparr>) q"
    by (simp only: snoc)
  also have "\<dots> = line\<lparr>UserAgentName := orElse (lastQuote ''ua'' (qs @ [q])) (UserAgentName line),
          Nginx_Uri := orElse (lastQuote ''uri'' (qs @ [q])) (Nginx_Uri line),
          Referer := orElse (lastQuote ''ref'' (qs @ [q])) (Referer line)\<rparr>"
    by (simp add: nginxQuote_def lastQuote_snoc orElse_def)
  finally show ?case .
qed

lemma nginx_fields_pass_again:
  "foldl (nginxField lib) (foldl nginxQuote (foldl (nginxField lib) line fs) qs) fs =
   foldl nginxQuote (foldl (nginxField lib) line fs) qs"
  by (simp add: foldl_nginxField foldl_nginxQuote orElse_def split: option.splits)

lemma nginx_quotes_pass_again:
  "foldl nginxQuote (foldl nginxQuote line qs) qs = foldl nginxQuote line qs"
  by (simp add: foldl_nginxQuote orElse_def split: option.splits)

section \<open>A second Parse\<close>

lemma SyslogLine_Parse_parsed: "parsed line \<Longrightarrow> SyslogLine_Parse lib line raw = Some (None, line)"
  by (simp add: SyslogLine_Parse_def)

lemma SyslogLine_Parse_success:
  "SyslogLine_Parse lib line raw = Some (None, line') \<Longrightarrow> parsed line'"
  by (auto simp: SyslogLine_Parse_def Let_def parseHostAndTag_def
           split: if_splits option.splits)

lemma haproxyBody_again: "haproxyBody line fs = Some line' \<Longrightarrow> haproxyBody line' fs = Some line'"
  by (auto simp: haproxyBody_def haproxyBackend_def haproxyTimes_def haproxyConnections_def
        haproxyQueues_def Let_def split: if_splits)

lemma HAProxyLine_Parse_again:
  assumes "HAProxyLine_Parse lib h raw = Some (None, h1)"
  shows "HAProxyLine_Parse lib h1 raw2 = Some (None, h1)"
proof -
  from assms obtain sl where
    env: "SyslogLine_Parse lib (HAProxy_SyslogLine h) raw = Some (None, sl)"
    and tag: "Tag sl = ''haproxy''"
    and body: "if 16 < length (fields_list sl)
               then haproxyBody (h\<lparr>HAProxy_SyslogLine := sl\<rparr>) (fields_list sl) = Some h1
               else h1 = h\<lparr>HAProxy_SyslogLine := sl\<rparr>"
    by (auto simp: HAProxyLine_Parse_def Let_def split: option.splits if_splits)
  have sl: "HAProxy_SyslogLine h1 = sl"
    using body haproxyBody_fields [of "h\<lparr>HAProxy_SyslogLine := sl\<rparr>" "fields_list sl" h1]
    by (auto split: if_splits)
  have again: "SyslogLine_Parse lib sl raw2 = Some (None, sl)"
    using SyslogLine_Parse_success [OF env] by (rule SyslogLine_Parse_parsed)
  have same: "h1\<lparr>HAProxy_SyslogLine := sl\<rparr> = h1"
    using sl by simp
  show ?thesis
  proof (cases "16 < length (fields_list sl)")
    case True
    with body have "haproxyBody h1 (fields_list sl) = Some h1"
      using haproxyBody_again by simp
    then show ?thesis using True tag again
      by (simp add: HAProxyLine_Parse_def Let_def sl same)
  next
    case False
    then show ?thesis using tag again
      by (simp add: HAProxyLine_Parse_def Let_def sl same)
  qed
qed

lemma UnicornLine_Parse_again:
  assumes "UnicornLine_Parse lib u raw = Some (None, u1)"
  shows "UnicornLine_Parse lib u1 raw = Some (None, u1)
         \<and> UnicornLine_Parse lib u1 raw2 =
             Some (None, if 4 \<le> length (fields_list (Unicorn_SyslogLine u1))
                            \<and> 1 < length (UUIDRegexp_FindStringSubmatch raw2)
                         then u1\<lparr>UUID := UUIDRegexp_FindStringSubmatch raw2 ! 1\<rparr> else u1)"
proof -
  from assms obtain sl where
    env: "SyslogLine_Parse lib (Unicorn_SyslogLine u) raw = Some (None, sl)"
    and tag: "Tag sl = ''unicorn''"
    and u1: "u1 = (if 4 \<le> length (fields_list sl) \<and> 1 < length (UUIDRegexp_FindStringSubmatch raw)
                   then u\<lparr>Unicorn_SyslogLine := sl, UUID := UUIDRegexp_FindStringSubmatch raw ! 1\<rparr>
                   else u\<lparr>Unicorn_SyslogLine := sl\<rparr>)"
    by (auto simp: UnicornLine_Parse_def Let_def split: option.splits if_splits)
  have sl: "Unicorn_SyslogLine u1 = sl"
    using u1 by simp
  have again: "SyslogLine_Parse lib sl r = Some (None, sl)" for r
    using SyslogLine_Parse_success [OF env] by (rule SyslogLine_Parse_parsed)
  have same: "u1\<lparr>Unicorn_SyslogLine := sl\<rparr> = u1"
    using sl by simp
  have a: "UnicornLine_Parse lib u1 raw = Some (None, u1)"
    using tag again [of raw] u1 by (simp add: UnicornLine_Parse_def Let_def sl same)
  have b: "UnicornLine_Parse lib u1 raw2 =
             Some (None, if 4 \<le> length (fields_list (Unicorn_SyslogLine u1))
                            \<and> 1 < length (UUIDRegexp_FindStringSubmatch raw2)
                         then u1\<lparr>UUID := UUIDRegexp_FindStringSubmatch raw2 ! 1\<rparr> else u1)"
    using tag again [of raw2] by (simp add: UnicornLine_Parse_def Let_def sl same)
  show ?thesis using a b by blast
qed

lemma NginxLine_Parse_again:
  assumes "NginxLine_Parse lib n raw = Some (None, n1)"
  shows "NginxLine_Parse lib n1 raw = Some (None, n1)
         \<and> NginxLine_Parse lib n1 raw2 =
             Some (None, foldl nginxQuote n1 (quotesRegexp_FindAllStringSubmatch raw2))"
proof -
  define sl0 where "sl0 = (case Nginx_SyslogLine n of None \<Rightarrow> newSyslogLine lib | Some sl \<Rightarrow> sl)"
  from assms obtain sl where
    env: "SyslogLine_Parse lib sl0 raw = Some (None, sl)"
    and tag: "Tag sl = ''ssl_endpoint'' \<or> Tag sl = ''nginx''"
    and n1: "n1 = foldl nginxQuote (foldl (nginxField lib) (n\<lparr>Nginx_SyslogLine := Some sl\<rparr>)
                    (fields_list sl)) (quotesRegexp_FindAllStringSubmatch raw)"
    unfolding sl0_def
    by (auto simp: NginxLine_Parse_def Let_def split: option.splits if_splits)
  have sl: "Nginx_SyslogLine n1 = Some sl"
    by (simp add: n1 foldl_nginxField foldl_nginxQuote)
  have again: "SyslogLine_Parse lib sl r = Some (None, sl)" for r
    using SyslogLine_Parse_success [OF env] by (rule SyslogLine_Parse_parsed)
  have same: "n1\<lparr>Nginx_SyslogLine := Some sl\<rparr> = n1"
    using sl by simp
  have fields_again: "foldl (nginxField lib) n1 (fields_list sl) = n1"
    unfolding n1 by (rule nginx_fields_pass_again)
  have quotes_again: "foldl nginxQuote n1 (quotesRegexp_FindAllStringSubmatch raw) = n1"
    unfolding n1 by (rule nginx_quotes_pass_again)
  have a: "NginxLine_Parse lib n1 raw = Some (None, n1)"
    using tag again [of raw]
    by (auto simp add: NginxLine_Parse_def Let_def sl same fields_again quotes_again)
  have b: "NginxLine_Parse lib n1 raw2 =
             Some (None, foldl nginxQuote n1 (quotesRegexp_FindAllStringSubmatch raw2))"
    using tag again [of raw2]
    by (auto simp add: NginxLine_Parse_def Let_def sl same fields_again)
  show ?thesis using a b by blast
qed

lemma Fields_nginx_ua:
  "Fields ''2014-06-01T12:00:00+00:00 host1 nginx: host=a.com ua=\"Mozilla 5\"'' =
     [''2014-06-01T12:00:00+00:00'', ''host1'', ''nginx:'', ''host=a.com'',
      [CHR ''u'', CHR ''a'', CHR ''='', dquote, CHR ''M'', CHR ''o'', CHR ''z'', CHR ''i'', CHR ''l'',
       CHR ''l'', CHR ''a''], [CHR ''5'', dquote]]"
  by code_simp

lemma parseTag_nginx: "parseTag ''nginx:'' = Some (''nginx'', [], 0)"
  by code_simp

lemma quotes_nginx_ua:
  "quotesRegexp_FindAllStringSubmatch ''2014-06-01T12:00:00+00:00 host1 nginx: host=a.com ua=\"Mozilla 5\"'' =
     [[[CHR ''u'', CHR ''a'', CHR ''='', dquote, CHR ''M'', CHR ''o'', CHR ''z'', CHR ''i'', CHR ''l'',
        CHR ''l'', CHR ''a'', CHR '' '', CHR ''5'', dquote], ''ua'', ''Mozilla 5'']]"
  by code_simp

lemma quotes_curl:
  "quotesRegexp_FindAllStringSubmatch ''ua=\"curl\"'' =
     [[[CHR ''u'', CHR ''a'', CHR ''='', dquote, CHR ''c'', CHR ''u'', CHR ''r'', CHR ''l'', dquote],
       ''ua'', ''curl'']]"
  by code_simp

lemma Fields_unicorn_uuid:
  "Fields ''2014-06-01T12:00:00+00:00 host1 unicorn[3]: 01234567-89ab-cdef-0123-456789abcdef started'' =
     [''2014-06-01T12:00:00+00:00'', ''host1'', ''unicorn[3]:'',
      ''01234567-89ab-cdef-0123-456789abcdef'', ''started'']"
  by code_simp

lemma uuid_first:
  "UUIDRegexp_FindStringSubmatch ''2014-06-01T12:00:00+00:00 host1 unicorn[3]: 01234567-89ab-cdef-0123-456789abcdef started'' =
     [''01234567-89ab-cdef-0123-456789abcdef'', ''01234567-89ab-cdef-0123-456789abcdef'']"
  by code_simp

lemma uuid_second:
  "UUIDRegexp_FindStringSubmatch ''fedcba98-7654-3210-fedc-ba9876543210'' =
     [''fedcba98-7654-3210-fedc-ba9876543210'', ''fedcba98-7654-3210-fedc-ba9876543210'']"
  by code_simp

lemma NginxLine_Parse_new:
  assumes "SyslogLine_Parse lib (newSyslogLine lib) raw = Some (None, sl)"
      and "Tag sl = ''ssl_endpoint'' \<or> Tag sl = ''nginx''"
  shows "NginxLine_Parse lib (newNginxLine lib) raw =
           Some (None, foldl nginxQuote
                   (foldl (nginxField lib) ((newNginxLine lib)\<lparr>Nginx_SyslogLine := Some sl\<rparr>)
                      (fields_list sl))
                   (quotesRegexp_FindAllStringSubmatch raw))"
  using assms by (auto simp add: NginxLine_Parse_def newNginxLine_def Let_def)

lemma syslog_nginx_ua:
  "\<exists>sl. SyslogLine_Parse sampleLib (newSyslogLine sampleLib) ''2014-06-01T12:00:00+00:00 host1 nginx: host=a.com ua=\"Mozilla 5\"'' = Some (None, sl)
        \<and> Tag sl = ''nginx''"
  by (simp add: SyslogLine_Parse_def Let_def parseHostAndTag_def Fields_nginx_ua
        shapeTime_micro_sample shapeTime_sample parseTag_nginx newSyslogLine_def sampleLib_def)

lemma ua_nginx_ua:
  "UserAgentName (foldl nginxQuote line (quotesRegexp_FindAllStringSubmatch ''2014-06-01T12:00:00+00:00 host1 nginx: host=a.com ua=\"Mozilla 5\"'')) = ''Mozilla 5''"
  by (simp add: quotes_nginx_ua nginxQuote_def)

lemma nginx_first_parse:
  "\<exists>n1. NginxLine_Parse sampleLib (newNginxLine sampleLib) ''2014-06-01T12:00:00+00:00 host1 nginx: host=a.com ua=\"Mozilla 5\"'' = Some (None, n1)
        \<and> UserAgentName n1 = ''Mozilla 5''"
proof -
  obtain sl where "SyslogLine_Parse sampleLib (newSyslogLine sampleLib) ''2014-06-01T12:00:00+00:00 host1 nginx: host=a.com ua=\"Mozilla 5\"'' = Some (None, sl)"
      and "Tag sl = ''nginx''"
    using syslog_nginx_ua by blast
  then show ?thesis
    using NginxLine_Parse_new [of sampleLib "''2014-06-01T12:00:00+00:00 host1 nginx: host=a.com ua=\"Mozilla 5\"''" sl] ua_nginx_ua by simp
qed

lemma unicorn_first_parse:
  "\<exists>u1. UnicornLine_Parse sampleLib (newUnicornLine sampleLib) ''2014-06-01T12:00:00+00:00 host1 unicorn[3]: 01234567-89ab-cdef-0123-456789abcdef started'' = Some (None, u1)
        \<and> UUID u1 = ''01234567-89ab-cdef-0123-456789abcdef''
        \<and> fields_list (Unicorn_SyslogLine u1) = Fields ''2014-06-01T12:00:00+00:00 host1 unicorn[3]: 01234567-89ab-cdef-0123-456789abcdef started''"
  by (simp add: UnicornLine_Parse_def newUnicornLine_def SyslogLine_Parse_def Let_def
        parseHostAndTag_def Fields_unicorn_uuid shapeTime_micro_sample shapeTime_sample
        parseTag_unicorn uuid_first newSyslogLine_def sampleLib_def)

lemma haproxy_first_parse:
  "\<exists>h1. HAProxyLine_Parse sampleLib (newHAProxyLine sampleLib) ''2014-06-01T12:00:00+00:00 host1 haproxy[99]: started'' = Some (None, h1)"
  by (simp add: HAProxyLine_Parse_def newHAProxyLine_def SyslogLine_Parse_def Let_def
        parseHostAndTag_def Fields_haproxy_short shapeTime_micro_sample shapeTime_sample
        parseTag_haproxy newSyslogLine_def sampleLib_def)

lemma syslog_first_parse:
  "\<exists>s1. SyslogLine_Parse sampleLib (newSyslogLine sampleLib) ''2014-06-01T12:00:00+00:00 host1 haproxy[99]: started'' = Some (None, s1)"
  by (simp add: SyslogLine_Parse_def Let_def
        parseHostAndTag_def Fields_haproxy_short shapeTime_micro_sample shapeTime_sample
        parseTag_haproxy newSyslogLine_def sampleLib_def)

text \<open>
  C1 reads: a second \<open>Parse\<close>, with any line, leaves every field as it was. The adapters
  of unicorn and nginx read their argument \<open>raw\<close> after the envelope: a parsed
  \<open>NginxLine\<close> with the user agent \<open>Mozilla 5\<close> has the user agent \<open>curl\<close> after a second
  \<open>Parse\<close> of a line that holds \<open>ua="curl"\<close>, and a parsed \<open>UnicornLine\<close> takes the UUID of
  the second line.
\<close>

theorem second_parse_counterexample:
  "(\<exists>n1 n2. NginxLine_Parse sampleLib (newNginxLine sampleLib) ''2014-06-01T12:00:00+00:00 host1 nginx: host=a.com ua=\"Mozilla 5\"'' = Some (None, n1)
      \<and> NginxLine_Parse sampleLib n1 ''ua=\"curl\"'' = Some (None, n2)
      \<and> UserAgentName n1 = ''Mozilla 5'' \<and> UserAgentName n2 = ''curl'')
   \<and> (\<exists>u1 u2. UnicornLine_Parse sampleLib (newUnicornLine sampleLib) ''2014-06-01T12:00:00+00:00 host1 unicorn[3]: 01234567-89ab-cdef-0123-456789abcdef started'' = Some (None, u1)
      \<and> UnicornLine_Parse sampleLib u1 ''fedcba98-7654-3210-fedc-ba9876543210'' = Some (None, u2)
      \<and> UUID u1 = ''01234567-89ab-cdef-0123-456789abcdef''
      \<and> UUID u2 = ''fedcba98-7654-3210-fedc-ba9876543210'')"
proof -
  obtain n1 where n1: "NginxLine_Parse sampleLib (newNginxLine sampleLib) ''2014-06-01T12:00:00+00:00 host1 nginx: host=a.com ua=\"Mozilla 5\"'' = Some (None, n1)"
      "UserAgentName n1 = ''Mozilla 5''"
    using nginx_first_parse by blast
  have n2: "NginxLine_Parse sampleLib n1 ''ua=\"curl\"'' =
      Some (None, foldl nginxQuote n1 (quotesRegexp_FindAllStringSubmatch ''ua=\"curl\"''))"
    using NginxLine_Parse_again [OF n1(1)] by blast
  have "UserAgentName (foldl nginxQuote n1 (quotesRegexp_FindAllStringSubmatch ''ua=\"curl\"'')) = ''curl''"
    by (simp add: quotes_curl nginxQuote_def)
  with n1 n2 have n: "\<exists>n1 n2. NginxLine_Parse sampleLib (newNginxLine sampleLib) ''2014-06-01T12:00:00+00:00 host1 nginx: host=a.com ua=\"Mozilla 5\"'' = Some (None, n1)
      \<and> NginxLine_Parse sampleLib n1 ''ua=\"curl\"'' = Some (None, n2)
      \<and> UserAgentName n1 = ''Mozilla 5'' \<and> UserAgentName n2 = ''curl''"
    by blast
  obtain u1 where u1: "UnicornLine_Parse sampleLib (newUnicornLine sampleLib) ''2014-06-01T12:00:00+00:00 host1 unicorn[3]: 01234567-89ab-cdef-0123-456789abcdef started'' = Some (None, u1)"
      "UUID u1 = ''01234567-89ab-cdef-0123-456789abcdef''"
      "fields_list (Unicorn_SyslogLine u1) = Fields ''2014-06-01T12:00:00+00:00 host1 unicorn[3]: 01234567-89ab-cdef-0123-456789abcdef started''"
    using unicorn_first_parse by blast
  have "UnicornLine_Parse sampleLib u1 ''fedcba98-7654-3210-fedc-ba9876543210'' =
      Some (None, u1\<lparr>UUID := ''fedcba98-7654-3210-fedc-ba9876543210''\<rparr>)"
    using UnicornLine_Parse_again [OF u1(1), of "''fedcba98-7654-3210-fedc-ba9876543210''"] u1(3)
    by (simp add: Fields_unicorn_uuid uuid_second)
  moreover have "UUID (u1\<lparr>UUID := ''fedcba98-7654-3210-fedc-ba9876543210''\<rparr>) =
      ''fedcba98-7654-3210-fedc-ba9876543210''"
    by simp
  ultimately have u: "\<exists>u1 u2. UnicornLine_Parse sampleLib (newUnicornLine sampleLib) ''2014-06-01T12:00:00+00:00 host1 unicorn[3]: 01234567-89ab-cdef-0123-456789abcdef started'' = Some (None, u1)
      \<and> UnicornLine_Parse sampleLib u1 ''fedcba98-7654-3210-fedc-ba9876543210'' = Some (None, u2)
      \<and> UUID u1 = ''01234567-89ab-cdef-0123-456789abcdef''
      \<and> UUID u2 = ''fedcba98-7654-3210-fedc-ba9876543210''"
    using u1(1,2) by blast
  show ?thesis using n u by blast
qed

text \<open>
  C1, as the code has it. After a \<open>Parse\<close> that returned nil, a second \<open>Parse\<close> returns nil
  again. On a \<open>SyslogLine\<close> and on a \<open>HAProxyLine\<close> it changes nothing, whatever the line.
  On a \<open>UnicornLine\<close> and on an \<open>NginxLine\<close> it changes nothing when the line is the one of
  the first call; with another line it leaves the envelope and the fields read from the
  tokens as they were, and assigns \<open>UUID\<close> from the new line when the record has at least
  four tokens and the new line has a match, and \<open>UserAgentName\<close>, \<open>Uri\<close> and \<open>Referer\<close> from
  the matches of \<open>quotesRegexp\<close> in the new line.
\<close>

theorem second_parse:
  "(SyslogLine_Parse lib s raw = Some (None, s1) \<longrightarrow>
      SyslogLine_Parse lib s1 raw2 = Some (None, s1))
   \<and> (HAProxyLine_Parse lib h raw = Some (None, h1) \<longrightarrow>
      HAProxyLine_Parse lib h1 raw2 = Some (None, h1))
   \<and> (UnicornLine_Parse lib u raw = Some (None, u1) \<longrightarrow>
      UnicornLine_Parse lib u1 raw = Some (None, u1)
      \<and> UnicornLine_Parse lib u1 raw2 =
          Some (None, if 4 \<le> length (fields_list (Unicorn_SyslogLine u1))
                         \<and> 1 < length (UUIDRegexp_FindStringSubmatch raw2)
                      then u1\<lparr>UUID := UUIDRegexp_FindStringSubmatch raw2 ! 1\<rparr> else u1))
   \<and> (NginxLine_Parse lib n raw = Some (None, n1) \<longrightarrow>
      NginxLine_Parse lib n1 raw = Some (None, n1)
      \<and> NginxLine_Parse lib n1 raw2 =
          Some (None, foldl nginxQuote n1 (quotesRegexp_FindAllStringSubmatch raw2)))"
  using SyslogLine_Parse_success [of lib s raw s1] SyslogLine_Parse_parsed [of s1 lib raw2]
    HAProxyLine_Parse_again [of lib h raw h1 raw2] UnicornLine_Parse_again [of lib u raw u1 raw2]
    NginxLine_Parse_again [of lib n raw n1 raw2]
  by blast

theorem second_parse_witness:
  "(\<exists>s1. SyslogLine_Parse sampleLib (newSyslogLine sampleLib) ''2014-06-01T12:00:00+00:00 host1 haproxy[99]: started'' = Some (None, s1)
       \<and> SyslogLine_Parse sampleLib s1 ''hello world'' = Some (None, s1))
   \<and> (\<exists>h1. HAProxyLine_Parse sampleLib (newHAProxyLine sampleLib) ''2014-06-01T12:00:00+00:00 host1 haproxy[99]: started'' = Some (None, h1)
       \<and> HAProxyLine_Parse sampleLib h1 ''hello world'' = Some (None, h1))
   \<and> (\<exists>u1. UnicornLine_Parse sampleLib (newUnicornLine sampleLib) ''2014-06-01T12:00:00+00:00 host1 unicorn[3]: 01234567-89ab-cdef-0123-456789abcdef started'' = Some (None, u1)
       \<and> UnicornLine_Parse sampleLib u1 ''2014-06-01T12:00:00+00:00 host1 unicorn[3]: 01234567-89ab-cdef-0123-456789abcdef started'' = Some (None, u1)
       \<and> UnicornLine_Parse sampleLib u1 ''fedcba98-7654-3210-fedc-ba9876543210'' =
           Some (None, u1\<lparr>UUID := ''fedcba98-7654-3210-fedc-ba9876543210''\<rparr>))
   \<and> (\<exists>n1. NginxLine_Parse sampleLib (newNginxLine sampleLib) ''2014-06-01T12:00:00+00:00 host1 nginx: host=a.com ua=\"Mozilla 5\"'' = Some (None, n1)
       \<and> NginxLine_Parse sampleLib n1 ''2014-06-01T12:00:00+00:00 host1 nginx: host=a.com ua=\"Mozilla 5\"'' = Some (None, n1)
       \<and> NginxLine_Parse sampleLib n1 ''ua=\"curl\"'' = Some (None, n1\<lparr>UserAgentName := ''curl''\<rparr>))"
proof -
  obtain s1 where s1: "SyslogLine_Parse sampleLib (newSyslogLine sampleLib) ''2014-06-01T12:00:00+00:00 host1 haproxy[99]: started'' = Some (None, s1)"
    using syslog_first_parse by blast
  obtain h1 where h1: "HAProxyLine_Parse sampleLib (newHAProxyLine sampleLib) ''2014-06-01T12:00:00+00:00 host1 haproxy[99]: started'' = Some (None, h1)"
    using haproxy_first_parse by blast
  obtain u1 where u1: "UnicornLine_Parse sampleLib (newUnicornLine sampleLib) ''2014-06-01T12:00:00+00:00 host1 unicorn[3]: 01234567-89ab-cdef-0123-456789abcdef started'' = Some (None, u1)"
      and fu: "fields_list (Unicorn_SyslogLine u1) = Fields ''2014-06-01T12:00:00+00:00 host1 unicorn[3]: 01234567-89ab-cdef-0123-456789abcdef started''"
    using unicorn_first_parse by blast
  obtain n1 where n1: "NginxLine_Parse sampleLib (newNginxLine sampleLib) ''2014-06-01T12:00:00+00:00 host1 nginx: host=a.com ua=\"Mozilla 5\"'' = Some (None, n1)"
    using nginx_first_parse by blast
  have a: "SyslogLine_Parse sampleLib s1 ''hello world'' = Some (None, s1)"
    using second_parse [where lib = sampleLib and s = "newSyslogLine sampleLib"
        and raw = "''2014-06-01T12:00:00+00:00 host1 haproxy[99]: started''" and ?s1.0 = s1 and ?raw2.0 = "''hello world''"] s1
    by blast
  have b: "HAProxyLine_Parse sampleLib h1 ''hello world'' = Some (None, h1)"
    using second_parse [where lib = sampleLib and h = "newHAProxyLine sampleLib"
        and raw = "''2014-06-01T12:00:00+00:00 host1 haproxy[99]: started''" and ?h1.0 = h1 and ?raw2.0 = "''hello world''"] h1
    by blast
  have c: "UnicornLine_Parse sampleLib u1 ''2014-06-01T12:00:00+00:00 host1 unicorn[3]: 01234567-89ab-cdef-0123-456789abcdef started'' = Some (None, u1)
       \<and> UnicornLine_Parse sampleLib u1 ''fedcba98-7654-3210-fedc-ba9876543210'' =
           Some (None, u1\<lparr>UUID := ''fedcba98-7654-3210-fedc-ba9876543210''\<rparr>)"
    using second_parse [where lib = sampleLib and u = "newUnicornLine sampleLib"
        and raw = "''2014-06-01T12:00:00+00:00 host1 unicorn[3]: 01234567-89ab-cdef-0123-456789abcdef started''" and ?u1.0 = u1 and ?raw2.0 = "''fedcba98-7654-3210-fedc-ba9876543210''"] u1 fu
    by (simp add: Fields_unicorn_uuid uuid_second)
  have "foldl nginxQuote n1 (quotesRegexp_FindAllStringSubmatch ''ua=\"curl\"'') =
          n1\<lparr>UserAgentName := ''curl''\<rparr>"
    by (simp add: quotes_curl nginxQuote_def)
  then have d: "NginxLine_Parse sampleLib n1 ''2014-06-01T12:00:00+00:00 host1 nginx: host=a.com ua=\"Mozilla 5\"'' = Some (None, n1)
       \<and> NginxLine_Parse sampleLib n1 ''ua=\"curl\"'' = Some (None, n1\<lparr>UserAgentName := ''curl''\<rparr>)"
    using second_parse [where lib = sampleLib and n = "newNginxLine sampleLib"
        and raw = "''2014-06-01T12:00:00+00:00 host1 nginx: host=a.com ua=\"Mozilla 5\"''" and ?n1.0 = n1 and ?raw2.0 = "''ua=\"curl\"''"] n1
    by simp
  show ?thesis using s1 h1 u1 n1 a b c d by blast
qed

section \<open>A line that ends with the body of the fixture\<close>































end
